theory Spec2Isabelle
  imports Complex_Main "HOL-Library.Word"
begin

section \<open>Strings\<close>

text \<open>
  A JavaScript string is a sequence of 16-bit code units, and \<open>length\<close> counts code
  units. ASCII literals are written through \<open>js\<close>.
\<close>

type_synonym jsstring = "16 word list"

definition js :: "string \<Rightarrow> jsstring" where
  "js s = map of_char s"

text \<open>The regular expression class \<open>\s\<close> (white space and line terminators).\<close>

definition isWhiteSpace :: "16 word \<Rightarrow> bool" where
  "isWhiteSpace c =
     (c = 9 \<or> c = 10 \<or> c = 11 \<or> c = 12 \<or> c = 13 \<or> c = 32 \<or> c = 160 \<or> c = 5760 \<or>
      (8192 \<le> c \<and> c \<le> 8202) \<or> c = 8232 \<or> c = 8233 \<or> c = 8239 \<or> c = 8287 \<or>
      c = 12288 \<or> c = 65279)"

text \<open>\<open>s.match(/\S/)\<close>: the string has a character that is not white space.\<close>

definition matchNonSpace :: "jsstring \<Rightarrow> bool" where
  "matchNonSpace s = list_ex (\<lambda>c. \<not> isWhiteSpace c) s"

text \<open>Truthiness of a value that is a string, \<open>null\<close> or \<open>undefined\<close>.\<close>

definition truthy :: "jsstring option \<Rightarrow> bool" where
  "truthy v = (case v of None \<Rightarrow> False | Some s \<Rightarrow> s \<noteq> [])"

text \<open>
  A value that a property lookup can give, by what the scanner does with it: a string,
  or another value, given by its \<open>length\<close> property (\<open>None\<close> when that is
  \<open>undefined\<close>) and by the string that \<open>+=\<close> appends for it. \<open>null\<close> and
  \<open>undefined\<close>, whose \<open>length\<close> cannot be read, are not values here.
\<close>

datatype jsvalue = JSString jsstring | JSOther "nat option" jsstring

fun value_length :: "jsvalue \<Rightarrow> nat option" where
  "value_length (JSString t) = Some (length t)"
| "value_length (JSOther n t) = n"

fun value_text :: "jsvalue \<Rightarrow> jsstring" where
  "value_text (JSString t) = t"
| "value_text (JSOther n t) = t"

section \<open>The document string scanner (HTMLDomStrings)\<close>

text \<open>
  The scanner is written against the \<open>DOMAdaptor\<close> interface, which is a parameter
  here: the operations the scanner calls, over an arbitrary type of node handles.
  A missing node (\<open>null\<close>) is \<open>None\<close>.
\<close>

record 'n adaptor =
  next_node :: "'n \<Rightarrow> 'n option"
  firstChild :: "'n \<Rightarrow> 'n option"
  kind :: "'n \<Rightarrow> jsstring"
  getAttribute :: "'n \<Rightarrow> jsstring \<Rightarrow> jsstring option"
  value_of :: "'n \<Rightarrow> jsstring"

text \<open>
  The options after \<open>getPatterns\<close>: each regular expression is the predicate
  "\<open>exec\<close> finds a match". \<open>includeTags\<close> is an object: the field is its property
  lookup \<open>include[kind]\<close>, own and inherited properties alike, with \<open>None\<close> for
  \<open>undefined\<close>.
\<close>

record options =
  skipTags :: "jsstring \<Rightarrow> bool"
  includeTags :: "jsstring \<Rightarrow> jsvalue option"
  ignoreClass :: "jsstring \<Rightarrow> bool"
  processClass :: "jsstring \<Rightarrow> bool"

text \<open>
  The working state of the scanner. \<open>HTMLNodeList\<close> is a list of pairs of a node and
  the \<open>length\<close> of the text added for it, which is a number or, for a text without
  that property, \<open>undefined\<close> (\<open>None\<close>). The stack is an array: \<open>push\<close> appends,
  \<open>pop\<close> takes the last entry.
\<close>

type_synonym 'n HTMLNodeList = "('n \<times> nat option) list"

record 'n scanner =
  strings :: "jsstring list"
  string :: jsstring
  snodes :: "'n HTMLNodeList"
  nodes :: "'n HTMLNodeList list"
  stack :: "('n \<times> bool) list"

definition init :: "'n scanner" where
  "init = \<lparr>strings = [], string = [], snodes = [], nodes = [], stack = []\<rparr>"

definition pushString :: "'n scanner \<Rightarrow> 'n scanner" where
  "pushString s =
     (let s1 = (if matchNonSpace (string s)
                then s\<lparr>strings := strings s @ [string s], nodes := nodes s @ [snodes s]\<rparr>
                else s)
      in s1\<lparr>string := [], snodes := []\<rparr>)"

text \<open>
  \<open>extendString\<close> is declared for a string and is called by \<open>handleTag\<close> with
  whatever the lookup gave: it records \<open>text.length\<close> and appends \<open>text\<close>.
\<close>

definition extendString :: "'n scanner \<Rightarrow> 'n \<Rightarrow> jsvalue \<Rightarrow> 'n scanner" where
  "extendString s node text =
     s\<lparr>snodes := snodes s @ [(node, value_length text)],
       string := string s @ value_text text\<rparr>"

definition handleText :: "'n adaptor \<Rightarrow> 'n scanner \<Rightarrow> 'n \<Rightarrow> bool \<Rightarrow> 'n scanner \<times> 'n option" where
  "handleText A s node ignore =
     ((if \<not> ignore then extendString s node (JSString (value_of A node)) else s),
      next_node A node)"

text \<open>
  \<open>handleTag\<close> is only called for a kind whose lookup in \<open>includeTags\<close> is not
  \<open>undefined\<close>; for \<open>undefined\<close> reading the length throws: that case is \<open>None\<close>.
\<close>

definition handleTag ::
  "'n adaptor \<Rightarrow> options \<Rightarrow> 'n scanner \<Rightarrow> 'n \<Rightarrow> bool \<Rightarrow> ('n scanner \<times> 'n option) option" where
  "handleTag A opts s node ignore =
     (if \<not> ignore then
        (case includeTags opts (kind A node) of
           None \<Rightarrow> None
         | Some text \<Rightarrow> Some (extendString s node text, next_node A node))
      else Some (s, next_node A node))"


definition handleContainer ::
  "'n adaptor \<Rightarrow> options \<Rightarrow> 'n scanner \<Rightarrow> 'n \<Rightarrow> bool \<Rightarrow> 'n scanner \<times> 'n option \<times> bool" where
  "handleContainer A opts s0 node ignore =
     (let s = pushString s0;
          cname = (case getAttribute A node (js ''class'') of
                     None \<Rightarrow> [] | Some c \<Rightarrow> c);
          tname = kind A node;
          process = processClass opts cname
      in if firstChild A node \<noteq> None \<and> \<not> truthy (getAttribute A node (js ''data-MJX'')) \<and>
            (process \<or> \<not> skipTags opts tname)
         then
           (let s' = (case next_node A node of
                        None \<Rightarrow> s
                      | Some n \<Rightarrow> s\<lparr>stack := stack s @ [(n, ignore)]\<rparr>)
            in (s', firstChild A node, (ignore \<or> ignoreClass opts cname) \<and> \<not> process))
         else (s, next_node A node, ignore))"

text \<open>
  One pass through the body of the loop of \<open>find\<close>, for the current node: the dispatch
  on the kind of the node, then the return to the node saved on the stack when the
  siblings are exhausted.
\<close>

definition dispatch ::
  "'n adaptor \<Rightarrow> options \<Rightarrow> 'n scanner \<Rightarrow> 'n \<Rightarrow> bool \<Rightarrow> ('n scanner \<times> 'n option \<times> bool) option" where
  "dispatch A opts s node ignore =
     (if kind A node = js ''#text'' then
        (case handleText A s node ignore of (s', n') \<Rightarrow> Some (s', n', ignore))
      else if includeTags opts (kind A node) \<noteq> None then
        (case handleTag A opts s node ignore of
           None \<Rightarrow> None
         | Some (s', n') \<Rightarrow> Some (s', n', ignore))
      else Some (handleContainer A opts s node ignore))"

definition resume :: "'n scanner \<times> 'n option \<times> bool \<Rightarrow> 'n scanner \<times> 'n option \<times> bool" where
  "resume c =
     (case c of (s, node, ignore) \<Rightarrow>
        if node = None \<and> stack s \<noteq> [] then
          (let s1 = pushString s
           in (s1\<lparr>stack := butlast (stack s1)\<rparr>, Some (fst (last (stack s1))), snd (last (stack s1))))
        else (s, node, ignore))"

text \<open>
  The loop of \<open>find\<close>. A host tree given by an arbitrary adaptor may be cyclic, so the
  loop takes fuel: \<open>None\<close> is "no result within that many passes" (or the failed lookup of
  \<open>handleTag\<close>, which the dispatch excludes).
\<close>

fun scan ::
  "nat \<Rightarrow> 'n adaptor \<Rightarrow> options \<Rightarrow> 'n option \<Rightarrow> 'n scanner \<Rightarrow> 'n option \<Rightarrow> bool \<Rightarrow> 'n scanner option" where
  "scan 0 A opts stop s node ignore = None"
| "scan (Suc k) A opts stop s node ignore =
     (case node of
        None \<Rightarrow> Some s
      | Some n \<Rightarrow>
          if node = stop then Some s
          else (case dispatch A opts s n ignore of
                  None \<Rightarrow> None
                | Some c \<Rightarrow>
                    (case resume c of (s', node', ignore') \<Rightarrow>
                       scan k A opts stop s' node' ignore')))"

definition find_strings ::
  "nat \<Rightarrow> 'n adaptor \<Rightarrow> options \<Rightarrow> 'n \<Rightarrow> (jsstring list \<times> 'n HTMLNodeList list) option" where
  "find_strings fuel A opts node =
     (let stop = next_node A node
      in case scan fuel A opts stop init (Some node) False of
           None \<Rightarrow> None
         | Some s \<Rightarrow> (let s' = pushString s in Some (strings s', nodes s')))"

section \<open>A host tree and its adaptor\<close>

text \<open>
  A concrete host document: a tree of text nodes and elements with attributes. A node
  handle is the path from the root (the child indices, outermost first), so that two
  nodes are the same handle exactly when they are the same position of the tree.
\<close>

datatype dom = Text jsstring | Element jsstring "(jsstring \<times> jsstring) list" "dom list"

fun children :: "dom \<Rightarrow> dom list" where
  "children (Text t) = []"
| "children (Element k as cs) = cs"

fun node_at :: "dom \<Rightarrow> nat list \<Rightarrow> dom option" where
  "node_at d [] = Some d"
| "node_at d (i # p) =
     (if i < length (children d) then node_at (children d ! i) p else None)"

definition dom_next :: "dom \<Rightarrow> nat list \<Rightarrow> nat list option" where
  "dom_next d p =
     (if p = [] then None
      else (let q = butlast p @ [Suc (last p)]
            in if node_at d q \<noteq> None then Some q else None))"

definition dom_firstChild :: "dom \<Rightarrow> nat list \<Rightarrow> nat list option" where
  "dom_firstChild d p = (if node_at d (p @ [0]) \<noteq> None then Some (p @ [0]) else None)"

definition dom_kind :: "dom \<Rightarrow> nat list \<Rightarrow> jsstring" where
  "dom_kind d p =
     (case node_at d p of
        Some (Text t) \<Rightarrow> js ''#text''
      | Some (Element k as cs) \<Rightarrow> k
      | None \<Rightarrow> [])"

definition dom_getAttribute :: "dom \<Rightarrow> nat list \<Rightarrow> jsstring \<Rightarrow> jsstring option" where
  "dom_getAttribute d p name =
     (case node_at d p of
        Some (Element k as cs) \<Rightarrow> map_of as name
      | _ \<Rightarrow> None)"

definition dom_value :: "dom \<Rightarrow> nat list \<Rightarrow> jsstring" where
  "dom_value d p =
     (case node_at d p of
        Some (Text t) \<Rightarrow> t
      | _ \<Rightarrow> [])"

definition dom_adaptor :: "dom \<Rightarrow> nat list adaptor" where
  "dom_adaptor d =
     \<lparr>next_node = dom_next d, firstChild = dom_firstChild d, kind = dom_kind d,
      getAttribute = dom_getAttribute d, value_of = dom_value d\<rparr>"

text \<open>
  The default options of \<open>HTMLDomStrings.OPTIONS\<close> after \<open>getPatterns\<close>:
  \<open>skipTags\<close> matches a whole tag name, ignoring case; the class patterns match a
  whole token of the class attribute, between spaces or the ends of the string.
\<close>

definition lower :: "16 word \<Rightarrow> 16 word" where
  "lower c = (if 65 \<le> c \<and> c \<le> 90 then c + 32 else c)"

fun tokens :: "jsstring \<Rightarrow> jsstring \<Rightarrow> jsstring list" where
  "tokens acc [] = [acc]"
| "tokens acc (c # cs) = (if c = 32 then acc # tokens [] cs else tokens (acc @ [c]) cs)"

definition classMatch :: "jsstring \<Rightarrow> jsstring \<Rightarrow> bool" where
  "classMatch name cname = (name \<in> set (tokens [] cname))"

text \<open>
  The members of \<open>Object.prototype\<close>, which every object literal inherits: functions,
  with their number of parameters as \<open>length\<close> and their source text as string, and
  the accessor \<open>__proto__\<close>, which gives the prototype object itself.
\<close>

definition native :: "nat \<Rightarrow> string \<Rightarrow> jsvalue" where
  "native n name = JSOther (Some n) (js (''function '' @ name @ ''() { [native code] }''))"

definition Object_prototype :: "jsstring \<Rightarrow> jsvalue option" where
  "Object_prototype =
     map_of
       [(js ''constructor'', native 1 ''Object''),
        (js ''toString'', native 0 ''toString''),
        (js ''toLocaleString'', native 0 ''toLocaleString''),
        (js ''valueOf'', native 0 ''valueOf''),
        (js ''hasOwnProperty'', native 1 ''hasOwnProperty''),
        (js ''isPrototypeOf'', native 1 ''isPrototypeOf''),
        (js ''propertyIsEnumerable'', native 1 ''propertyIsEnumerable''),
        (js ''__defineGetter__'', native 2 ''__defineGetter__''),
        (js ''__defineSetter__'', native 2 ''__defineSetter__''),
        (js ''__lookupGetter__'', native 1 ''__lookupGetter__''),
        (js ''__lookupSetter__'', native 1 ''__lookupSetter__''),
        (js ''__proto__'', JSOther None (js ''[object Object]''))]"

text \<open>The lookup in an object literal with string values: its own keys first.\<close>

definition object_literal :: "(jsstring \<times> jsstring) list \<Rightarrow> jsstring \<Rightarrow> jsvalue option" where
  "object_literal own key =
     (case map_of own key of
        Some t \<Rightarrow> Some (JSString t)
      | None \<Rightarrow> Object_prototype key)"

definition OPTIONS :: options where
  "OPTIONS =
     \<lparr>skipTags = (\<lambda>t. map lower t \<in> set (map js
         [''script'', ''noscript'', ''style'', ''textarea'', ''pre'', ''code'',
          ''annotation'', ''annotation-xml''])),
      includeTags = object_literal [(js ''br'', [10]), (js ''wbr'', []), (js ''#comment'', [])],
      ignoreClass = classMatch (js ''tex2jax_ignore''),
      processClass = classMatch (js ''tex2jax_process'')\<rparr>"

text \<open>
  A document for the examples:
  \<^verbatim>\<open><div>a <br><span class="x tex2jax_ignore">hidden<span class="tex2jax_process">shown</span
  >hidden2</span> <span data-MJX="true">out</span>z</div>\<close>
\<close>

definition example_dom :: dom where
  "example_dom =
     Element (js ''div'') []
       [Text (js ''a ''),
        Element (js ''br'') [] [],
        Element (js ''span'') [(js ''class'', js ''x tex2jax_ignore'')]
          [Text (js ''hidden''),
           Element (js ''span'') [(js ''class'', js ''tex2jax_process'')] [Text (js ''shown'')],
           Text (js ''hidden2'')],
        Text (js '' ''),
        Element (js ''span'') [(js ''data-MJX'', js ''true'')] [Text (js ''out'')],
        Text (js ''z'')]"

text \<open>
  Output of the default \<open>typesetError\<close> in a paragraph:
  \<^verbatim>\<open><p><span data-mjx-error="boom">Math output error</span></p>\<close>
\<close>

definition error_dom :: dom where
  "error_dom =
     Element (js ''p'') []
       [Element (js ''span'') [(js ''data-mjx-error'', js ''boom'')]
          [Text (js ''Math output error'')]]"

text \<open>
  An element named like a member of \<open>Object.prototype\<close>:
  \<^verbatim>\<open><div>a<constructor>b</constructor>c</div>\<close>
\<close>

definition constructor_dom :: dom where
  "constructor_dom =
     Element (js ''div'') []
       [Text (js ''a''), Element (js ''constructor'') [] [Text (js ''b'')], Text (js ''c'')]"

text \<open>
  The size of a host tree, and the work left to the scanner at a node: the sizes of the
  node and of the siblings after it, for the current node and for every node saved on the
  stack. Every pass of the loop does some of it.
\<close>

fun dsize :: "dom \<Rightarrow> nat" where
  "dsize (Text t) = 1"
| "dsize (Element k as cs) = Suc (sum_list (map dsize cs))"

definition forest_at :: "dom \<Rightarrow> nat list \<Rightarrow> dom list" where
  "forest_at d p =
     (if p = [] then [d]
      else (case node_at d (butlast p) of
              None \<Rightarrow> []
            | Some t \<Rightarrow> drop (last p) (children t)))"

definition rest_size :: "dom \<Rightarrow> nat list \<Rightarrow> nat" where
  "rest_size d p = sum_list (map dsize (forest_at d p))"

definition work :: "dom \<Rightarrow> nat list option \<Rightarrow> (nat list \<times> bool) list \<Rightarrow> nat" where
  "work d cur stk =
     (case cur of None \<Rightarrow> 0 | Some p \<Rightarrow> rest_size d p) + sum_list (map (\<lambda>e. rest_size d (fst e)) stk)"

definition valid_state :: "dom \<Rightarrow> nat list option \<Rightarrow> (nat list \<times> bool) list \<Rightarrow> bool" where
  "valid_state d cur stk =
     ((case cur of None \<Rightarrow> True | Some p \<Rightarrow> node_at d p \<noteq> None) \<and>
      list_all (\<lambda>e. node_at d (fst e) \<noteq> None) stk)"

text \<open>
  The sum of the lengths of a node list; there is none when a length is \<open>undefined\<close>.
\<close>

fun lengths_total :: "'n HTMLNodeList \<Rightarrow> nat option" where
  "lengths_total [] = Some 0"
| "lengths_total ((n, l) # ns) =
     (case l of
        None \<Rightarrow> None
      | Some a \<Rightarrow> map_option (\<lambda>b. a + b) (lengths_total ns))"

text \<open>
  The invariant of the scanner's buffers: every recorded string has a node list whose
  lengths add up to the string's length, and so has the string under construction.
\<close>

definition consistent :: "'n scanner \<Rightarrow> bool" where
  "consistent s =
     (list_all2 (\<lambda>str ns. lengths_total ns = Some (length str)) (strings s) (nodes s) \<and>
      lengths_total (snodes s) = Some (length (string s)))"

text \<open>Every text that \<open>includeTags\<close> has for the kind of a node is a string.\<close>

definition texts_are_strings :: "'n adaptor \<Rightarrow> options \<Rightarrow> bool" where
  "texts_are_strings A opts =
     (\<forall>n. case includeTags opts (kind A n) of Some (JSOther l t) \<Rightarrow> False | _ \<Rightarrow> True)"


text \<open>The adaptor with another first child at one node, all else the same.\<close>

definition with_firstChild :: "'n adaptor \<Rightarrow> 'n \<Rightarrow> 'n option \<Rightarrow> 'n adaptor" where
  "with_firstChild A n c = A\<lparr>firstChild := (firstChild A)(n := c)\<rparr>"

section \<open>The pipeline (AbstractMathDocument)\<close>

text \<open>
  A thrown value, with the two fields the pipeline looks at besides the message.
\<close>

record jserror =
  message :: jsstring
  retry :: bool
  restart :: bool

text \<open>
  The internal tree the error factory builds: \<open>create(kind, attributes, children)\<close>, and
  the text node of \<open>create('text').setText(t)\<close>. \<open>attributes_set\<close> is the
  \<open>attributes.set(name, value)\<close> of a node, \<open>attributes_get\<close> the lookup.
\<close>

datatype MmlNode = MmlNode jsstring "(jsstring \<times> jsstring) list" "MmlNode list" | TextNode jsstring

fun attributes_set :: "MmlNode \<Rightarrow> jsstring \<Rightarrow> jsstring \<Rightarrow> MmlNode" where
  "attributes_set (MmlNode k as cs) name v = MmlNode k ((name, v) # as) cs"
| "attributes_set (TextNode t) name v = TextNode t"

fun attributes_get :: "MmlNode \<Rightarrow> jsstring \<Rightarrow> jsstring option" where
  "attributes_get (MmlNode k as cs) name = map_of as name"
| "attributes_get (TextNode t) name = None"

text \<open>
  A math item, with the fields the document's methods read and write. The host nodes the
  adaptor builds (\<open>adaptor.node\<close>, \<open>adaptor.text\<close>) are the elements and text nodes of
  the host tree.
\<close>

record MathItem =
  math_source :: jsstring
  display :: bool
  item_state :: int
  root :: "MmlNode option"
  typesetRoot :: "dom option"
  inputData :: "string \<rightharpoonup> jserror"
  outputData :: "string \<rightharpoonup> jserror"

text \<open>
  The document: the host document, the list of math items in document order, and the
  \<open>processed\<close> object, from property names to booleans. A flag is set when it is
  \<open>Some True\<close>.
\<close>

record 'h MathDocument =
  document :: 'h
  math :: "MathItem list"
  processed :: "string \<rightharpoonup> bool"

text \<open>
  What the document calls and this file does not define: the methods of a math item
  (\<open>math.compile(doc)\<close>, \<open>math.typeset(doc)\<close>, \<open>math.updateDocument(doc)\<close>,
  \<open>math.state(state, restore)\<close>) and the output jax's \<open>getMetrics\<close>. A method that
  can throw returns the item as it leaves it and the thrown value, if any; a method that
  works on the host document takes it and returns it.
\<close>

record 'h externals =
  math_compile :: "MathItem \<Rightarrow> MathItem \<times> jserror option"
  math_typeset :: "MathItem \<Rightarrow> MathItem \<times> jserror option"
  math_updateDocument :: "MathItem \<Rightarrow> 'h \<Rightarrow> MathItem \<times> 'h"
  math_state :: "MathItem \<Rightarrow> int \<Rightarrow> bool \<Rightarrow> 'h \<Rightarrow> MathItem \<times> 'h"
  outputJax_getMetrics :: "MathItem list \<Rightarrow> MathItem list"

text \<open>The two handlers of the document's options; each gets the item and the error.\<close>

record doc_options =
  compileError_option :: "MathItem \<Rightarrow> jserror \<Rightarrow> MathItem"
  typesetError_option :: "MathItem \<Rightarrow> jserror \<Rightarrow> MathItem"

text \<open>The constants of \<open>AbstractMathItem.STATE\<close> the document compares with.\<close>

record STATE =
  COMPILED :: int
  TYPESET :: int
  INSERTED :: int

text \<open>
  A call of a method of the document returns the document, or throws, leaving the
  document as it was at the throw.
\<close>

datatype 'a outcome = Returns 'a | Throws jserror 'a

definition constructor_processed :: "string \<rightharpoonup> bool" where
  "constructor_processed =
     [''findMath'' \<mapsto> False, ''compile'' \<mapsto> False, ''typeset'' \<mapsto> False,
      ''getMetrics'' \<mapsto> False, ''updateDocument'' \<mapsto> False]"

definition findMath :: "'h MathDocument \<Rightarrow> 'h MathDocument" where
  "findMath doc = doc\<lparr>processed := (processed doc)(''findMath'' \<mapsto> True)\<rparr>"

definition compileError :: "MathItem \<Rightarrow> jserror \<Rightarrow> MathItem" where
  "compileError item err =
     (let item1 = item\<lparr>root := Some
            (MmlNode (js ''math'') [(js ''data-mjx-error'', message err)]
               [MmlNode (js ''merror'') []
                  [MmlNode (js ''mtext'') [] [TextNode (js ''Math input error'')]]])\<rparr>
      in if display item1
         then item1\<lparr>root := map_option (\<lambda>r. attributes_set r (js ''display'') (js ''block''))
                               (root item1)\<rparr>
         else item1)"

definition typesetError :: "MathItem \<Rightarrow> jserror \<Rightarrow> MathItem" where
  "typesetError item err =
     item\<lparr>typesetRoot := Some
       (Element (js ''span'') [(js ''data-mjx-error'', message err)]
          [Text (js ''Math output error'')])\<rparr>"

definition OPTIONS_doc :: doc_options where
  "OPTIONS_doc = \<lparr>compileError_option = compileError, typesetError_option = typesetError\<rparr>"

text \<open>
  The loop of \<open>compile\<close> over the items from a position on: the items as the loop
  leaves them, and the error that ended it, if one did.
\<close>

fun compile_items ::
  "'h externals \<Rightarrow> doc_options \<Rightarrow> MathItem list \<Rightarrow> MathItem list \<times> jserror option" where
  "compile_items X opts [] = ([], None)"
| "compile_items X opts (item # items) =
     (case math_compile X item of
        (item1, None) \<Rightarrow>
          (case compile_items X opts items of (items', r) \<Rightarrow> (item1 # items', r))
      | (item1, Some err) \<Rightarrow>
          if retry err \<or> restart err then (item1 # items, Some err)
          else (let item2 = compileError_option opts item1 err;
                    item3 = item2\<lparr>inputData := (inputData item2)(''error'' \<mapsto> err)\<rparr>
                in case compile_items X opts items of (items', r) \<Rightarrow> (item3 # items', r)))"

definition compile :: "'h externals \<Rightarrow> doc_options \<Rightarrow> 'h MathDocument \<Rightarrow> 'h MathDocument outcome" where
  "compile X opts doc =
     (if processed doc ''compile'' \<noteq> Some True then
        (case compile_items X opts (math doc) of
           (items, Some err) \<Rightarrow> Throws err (doc\<lparr>math := items\<rparr>)
         | (items, None) \<Rightarrow>
             Returns (doc\<lparr>math := items, processed := (processed doc)(''compile'' \<mapsto> True)\<rparr>))
      else Returns doc)"

fun typeset_items ::
  "'h externals \<Rightarrow> doc_options \<Rightarrow> MathItem list \<Rightarrow> MathItem list \<times> jserror option" where
  "typeset_items X opts [] = ([], None)"
| "typeset_items X opts (item # items) =
     (case math_typeset X item of
        (item1, None) \<Rightarrow>
          (case typeset_items X opts items of (items', r) \<Rightarrow> (item1 # items', r))
      | (item1, Some err) \<Rightarrow>
          if retry err \<or> restart err then (item1 # items, Some err)
          else (let item2 = typesetError_option opts item1 err;
                    item3 = item2\<lparr>outputData := (outputData item2)(''error'' \<mapsto> err)\<rparr>
                in case typeset_items X opts items of (items', r) \<Rightarrow> (item3 # items', r)))"

definition typeset :: "'h externals \<Rightarrow> doc_options \<Rightarrow> 'h MathDocument \<Rightarrow> 'h MathDocument outcome" where
  "typeset X opts doc =
     (if processed doc ''typeset'' \<noteq> Some True then
        (case typeset_items X opts (math doc) of
           (items, Some err) \<Rightarrow> Throws err (doc\<lparr>math := items\<rparr>)
         | (items, None) \<Rightarrow>
             Returns (doc\<lparr>math := items, processed := (processed doc)(''typeset'' \<mapsto> True)\<rparr>))
      else Returns doc)"

definition getMetrics :: "'h externals \<Rightarrow> 'h MathDocument \<Rightarrow> 'h MathDocument" where
  "getMetrics X doc =
     (if processed doc ''getMetrics'' \<noteq> Some True then
        doc\<lparr>math := outputJax_getMetrics X (math doc),
            processed := (processed doc)(''getMetrics'' \<mapsto> True)\<rparr>
      else doc)"

text \<open>
  A loop over items that works on the host document: the items are visited in the order
  of the list, each call gets the host document the one before left.
\<close>

fun for_each :: "(MathItem \<Rightarrow> 'h \<Rightarrow> MathItem \<times> 'h) \<Rightarrow> MathItem list \<Rightarrow> 'h \<Rightarrow> MathItem list \<times> 'h" where
  "for_each f [] host = ([], host)"
| "for_each f (item # items) host =
     (case f item host of (item', host1) \<Rightarrow>
        (case for_each f items host1 of (items', host2) \<Rightarrow> (item' # items', host2)))"

text \<open>
  Modelled from the spec: \<open>MathList.reversed()\<close>, the iteration of the list from its last
  item to its first.
\<close>

definition reversed :: "MathItem list \<Rightarrow> MathItem list" where
  "reversed items = rev items"

definition updateDocument :: "'h externals \<Rightarrow> 'h MathDocument \<Rightarrow> 'h MathDocument" where
  "updateDocument X doc =
     (if processed doc ''updateDocument'' \<noteq> Some True then
        (case for_each (math_updateDocument X) (reversed (math doc)) (document doc) of
           (items, host) \<Rightarrow>
             doc\<lparr>math := rev items, document := host,
                 processed := (processed doc)(''updateDocument'' \<mapsto> True)\<rparr>)
      else doc)"

definition state :: "'h externals \<Rightarrow> STATE \<Rightarrow> 'h MathDocument \<Rightarrow> int \<Rightarrow> bool \<Rightarrow> 'h MathDocument" where
  "state X S doc target restore =
     (case for_each (\<lambda>item. math_state X item target restore) (math doc) (document doc) of
        (items, host) \<Rightarrow>
          (let doc1 = doc\<lparr>math := items, document := host\<rparr>;
               doc2 = (if target < INSERTED S
                       then doc1\<lparr>processed := (processed doc1)(''updateDocument'' \<mapsto> False)\<rparr>
                       else doc1);
               doc3 = (if target < TYPESET S
                       then doc2\<lparr>processed :=
                              (processed doc2)(''typeset'' \<mapsto> False, ''getMetrics'' \<mapsto> False)\<rparr>
                       else doc2);
               doc4 = (if target < COMPILED S
                       then doc3\<lparr>processed := (processed doc3)(''compile'' \<mapsto> False)\<rparr>
                       else doc3)
           in doc4))"

text \<open>
  The chain of calls of the interface's documentation:
  \<open>findMath().compile().getMetrics().typeset().updateDocument()\<close>.
\<close>

definition full_run :: "'h externals \<Rightarrow> doc_options \<Rightarrow> 'h MathDocument \<Rightarrow> 'h MathDocument outcome" where
  "full_run X opts doc =
     (case compile X opts (findMath doc) of
        Throws e d \<Rightarrow> Throws e d
      | Returns d1 \<Rightarrow>
          (case typeset X opts (getMetrics X d1) of
             Throws e d \<Rightarrow> Throws e d
           | Returns d2 \<Rightarrow> Returns (updateDocument X d2)))"

definition all_processed :: "'h MathDocument \<Rightarrow> bool" where
  "all_processed doc =
     (processed doc ''findMath'' = Some True \<and> processed doc ''compile'' = Some True \<and>
      processed doc ''getMetrics'' = Some True \<and> processed doc ''typeset'' = Some True \<and>
      processed doc ''updateDocument'' = Some True)"

text \<open>An item's call aborts the pass when it throws a value flagged retry or restart.\<close>

definition aborts :: "(MathItem \<Rightarrow> MathItem \<times> jserror option) \<Rightarrow> MathItem \<Rightarrow> bool" where
  "aborts f item = (case snd (f item) of None \<Rightarrow> False | Some err \<Rightarrow> retry err \<or> restart err)"

text \<open>The item after its turn in the loop of compile, when its call does not abort.\<close>

definition compiled_item :: "'h externals \<Rightarrow> doc_options \<Rightarrow> MathItem \<Rightarrow> MathItem" where
  "compiled_item X opts item =
     (case math_compile X item of
        (item1, None) \<Rightarrow> item1
      | (item1, Some err) \<Rightarrow>
          (compileError_option opts item1 err)
            \<lparr>inputData := (inputData (compileError_option opts item1 err))(''error'' \<mapsto> err)\<rparr>)"

definition input_error_tree :: "jsstring \<Rightarrow> bool \<Rightarrow> MmlNode" where
  "input_error_tree msg disp =
     MmlNode (js ''math'')
       ((if disp then [(js ''display'', js ''block'')] else []) @ [(js ''data-mjx-error'', msg)])
       [MmlNode (js ''merror'') []
          [MmlNode (js ''mtext'') [] [TextNode (js ''Math input error'')]]]"

text \<open>
  Items, collaborators and documents for the examples. The host document is the list of
  the sources spliced in so far, or, with \<open>ex_logging\<close>, of the items themselves. The
  input jax fails on the source \<open>bad\<close> and asks for a retry on the source \<open>wait\<close>.
\<close>

definition ex_error :: "bool \<Rightarrow> jserror" where
  "ex_error again = \<lparr>message = js ''boom'', retry = again, restart = False\<rparr>"

definition ex_item :: "string \<Rightarrow> MathItem" where
  "ex_item src =
     \<lparr>math_source = js src, display = (src = ''bad''), item_state = 0, root = None,
      typesetRoot = None, inputData = Map.empty, outputData = Map.empty\<rparr>"

definition ex_externals :: "jsstring list externals" where
  "ex_externals =
     \<lparr>math_compile = (\<lambda>item.
        if math_source item = js ''bad'' then (item, Some (ex_error False))
        else if math_source item = js ''wait'' then (item, Some (ex_error True))
        else (item\<lparr>root := Some (TextNode (math_source item)), item_state := 1\<rparr>, None)),
      math_typeset = (\<lambda>item.
        (item\<lparr>typesetRoot := Some (Text (math_source item)), item_state := 2\<rparr>, None)),
      math_updateDocument = (\<lambda>item host. (item\<lparr>item_state := 3\<rparr>, host @ [math_source item])),
      math_state = (\<lambda>item target restore host. (item\<lparr>item_state := target\<rparr>, host)),
      outputJax_getMetrics = (\<lambda>items. items)\<rparr>"

definition ex_logging :: "MathItem list externals" where
  "ex_logging =
     \<lparr>math_compile = (\<lambda>item. (item, None)),
      math_typeset = (\<lambda>item. (item, None)),
      math_updateDocument = (\<lambda>item host. (item, host @ [item])),
      math_state = (\<lambda>item target restore host. (item, host)),
      outputJax_getMetrics = (\<lambda>items. items)\<rparr>"

definition ex_STATE :: STATE where
  "ex_STATE = \<lparr>COMPILED = 1, TYPESET = 2, INSERTED = 3\<rparr>"

definition ex_doc :: "string list \<Rightarrow> jsstring list MathDocument" where
  "ex_doc srcs = \<lparr>document = [], math = map ex_item srcs, processed = constructor_processed\<rparr>"

definition ex_log_doc :: "string list \<Rightarrow> MathItem list MathDocument" where
  "ex_log_doc srcs = \<lparr>document = [], math = map ex_item srcs, processed = constructor_processed\<rparr>"

section \<open>The fraction wrapper (CommonMfrac)\<close>

text \<open>
  The arithmetic of numbers is a parameter of the fraction's functions: the operations
  and the comparison they use, and the value of an integer literal. The numbers of
  JavaScript are the doubles, \<open>double_arith\<close> below; the exact arithmetic of the reals
  is \<open>real_arith\<close>.
\<close>

record 'a arith =
  plus_op :: "'a \<Rightarrow> 'a \<Rightarrow> 'a"
  minus_op :: "'a \<Rightarrow> 'a \<Rightarrow> 'a"
  times_op :: "'a \<Rightarrow> 'a \<Rightarrow> 'a"
  divide_op :: "'a \<Rightarrow> 'a \<Rightarrow> 'a"
  less_op :: "'a \<Rightarrow> 'a \<Rightarrow> bool"
  literal :: "nat \<Rightarrow> 'a"

text \<open>A bounding box and the font parameters have the fields the fraction reads.\<close>

record 'a BBox =
  bbox_w :: 'a
  bbox_h :: 'a
  bbox_d :: 'a
  bbox_scale :: 'a
  bbox_rscale :: 'a

record 'a font_params =
  num1 :: 'a
  num2 :: 'a
  num3 :: 'a
  denom1 :: 'a
  denom2 :: 'a
  rule_thickness :: 'a
  axis_height :: 'a
  nulldelimiterspace :: 'a

text \<open>
  \<open>getUVQ\<close> returns the object \<open>{u, v, q, nbox, dbox}\<close>, here the tuple in that order;
  \<open>nbox\<close> and \<open>dbox\<close> are the boxes of the two children. The operations are applied
  in the order of the source:
  \<open>q = (u - nbox.d * nbox.scale) - (dbox.h * dbox.scale - v)\<close>, then
  \<open>u += (p - q)/2\<close> and \<open>v += (p - q)/2\<close>.
\<close>

definition getUVQ ::
  "'a arith \<Rightarrow> 'a font_params \<Rightarrow> 'a BBox \<Rightarrow> 'a BBox \<Rightarrow> bool \<Rightarrow>
   'a \<times> 'a \<times> 'a \<times> 'a BBox \<times> 'a BBox" where
  "getUVQ ar tex nbox dbox disp =
     (let (u, v) = (if disp then (num1 tex, denom1 tex) else (num3 tex, denom2 tex));
          p = times_op ar (literal ar (if disp then 7 else 3)) (rule_thickness tex);
          q = minus_op ar
                (minus_op ar u (times_op ar (bbox_d nbox) (bbox_scale nbox)))
                (minus_op ar (times_op ar (bbox_h dbox) (bbox_scale dbox)) v)
      in if less_op ar q p
         then (plus_op ar u (divide_op ar (minus_op ar p q) (literal ar 2)),
               plus_op ar v (divide_op ar (minus_op ar p q) (literal ar 2)),
               p, nbox, dbox)
         else (u, v, q, nbox, dbox))"

text \<open>\<open>isDisplay\<close>, from the node's \<open>displaystyle\<close> and \<open>scriptlevel\<close>.\<close>

definition isDisplay :: "bool \<Rightarrow> int \<Rightarrow> bool" where
  "isDisplay displaystyle scriptlevel = (displaystyle \<and> scriptlevel = 0)"

text \<open>
  The quantities of the atop layout: the initial offsets, the minimum separation, and
  the gap between the numerator's scaled depth and the denominator's scaled height when
  the two are placed at the offsets u and v, computed as \<open>getUVQ\<close> computes \<open>q\<close>.
\<close>

definition atop_offsets :: "'a font_params \<Rightarrow> bool \<Rightarrow> 'a \<times> 'a" where
  "atop_offsets tex disp = (if disp then (num1 tex, denom1 tex) else (num3 tex, denom2 tex))"

definition atop_min_gap :: "'a arith \<Rightarrow> 'a font_params \<Rightarrow> bool \<Rightarrow> 'a" where
  "atop_min_gap ar tex disp =
     times_op ar (literal ar (if disp then 7 else 3)) (rule_thickness tex)"

definition atop_gap :: "'a arith \<Rightarrow> 'a BBox \<Rightarrow> 'a BBox \<Rightarrow> 'a \<Rightarrow> 'a \<Rightarrow> 'a" where
  "atop_gap ar nbox dbox u v =
     minus_op ar
       (minus_op ar u (times_op ar (bbox_d nbox) (bbox_scale nbox)))
       (minus_op ar (times_op ar (bbox_h dbox) (bbox_scale dbox)) v)"

subsection \<open>Exact arithmetic\<close>

definition real_arith :: "real arith" where
  "real_arith =
     \<lparr>plus_op = (\<lambda>x y. x + y), minus_op = (\<lambda>x y. x - y), times_op = (\<lambda>x y. x * y),
      divide_op = (\<lambda>x y. x / y), less_op = (\<lambda>x y. x < y), literal = of_nat\<rparr>"

subsection \<open>Double arithmetic\<close>

text \<open>
  A finite double is the pair \<open>(m, e)\<close> of its value \<open>m * 2 ^ e\<close> with \<open>m\<close> odd, or
  \<open>(0, 0)\<close>, so that equal doubles are equal pairs. Every operation gives the exact
  result rounded to 53 bits, to the nearest double and to the even one of two nearest,
  as IEEE 754 prescribes. The range of the exponent is not modelled: the values here are
  normal doubles, without overflow, subnormals, infinities, NaN or a division by zero.
\<close>

type_synonym double = "int \<times> int"

text \<open>The number of bits of an integer.\<close>

function bits :: "int \<Rightarrow> nat" where
  "bits m = (if m = 0 then 0 else Suc (bits (\<bar>m\<bar> div 2)))"
  by pat_completeness auto
termination
  by (relation "measure (\<lambda>m. nat \<bar>m\<bar>)") auto

declare bits.simps [simp del]

text \<open>The pair with \<open>m\<close> odd for the value \<open>m * 2 ^ e\<close>.\<close>

function canonical :: "int \<Rightarrow> int \<Rightarrow> double" where
  "canonical m e =
     (if m = 0 then (0, 0) else if even m then canonical (m div 2) (e + 1) else (m, e))"
  by pat_completeness auto
termination
  by (relation "measure (\<lambda>(m, e). nat \<bar>m\<bar>)") auto

declare canonical.simps [simp del]

text \<open>The double nearest to \<open>m * 2 ^ e\<close>, ties to even.\<close>

definition round53 :: "int \<Rightarrow> int \<Rightarrow> double" where
  "round53 m e =
     (let n = bits m
      in if n \<le> 53 then canonical m e
         else (let k = n - 53;
                   q = \<bar>m\<bar> div 2 ^ k;
                   r = \<bar>m\<bar> mod 2 ^ k;
                   q' = (if 2 ^ (k - 1) < r \<or> (r = 2 ^ (k - 1) \<and> odd q) then q + 1 else q)
               in canonical (sgn m * q') (e + int k)))"

definition dplus :: "double \<Rightarrow> double \<Rightarrow> double" where
  "dplus x y =
     (case (x, y) of ((m1, e1), (m2, e2)) \<Rightarrow>
        (let e = min e1 e2
         in round53 (m1 * 2 ^ nat (e1 - e) + m2 * 2 ^ nat (e2 - e)) e))"

definition dminus :: "double \<Rightarrow> double \<Rightarrow> double" where
  "dminus x y = (case y of (m2, e2) \<Rightarrow> dplus x (- m2, e2))"

definition dtimes :: "double \<Rightarrow> double \<Rightarrow> double" where
  "dtimes x y = (case (x, y) of ((m1, e1), (m2, e2)) \<Rightarrow> round53 (m1 * m2) (e1 + e2))"

text \<open>
  The quotient is taken to more than 55 bits; when it is not exact, a last bit set to 1
  stands for the part that is left.
\<close>

definition ddivide :: "double \<Rightarrow> double \<Rightarrow> double" where
  "ddivide x y =
     (case (x, y) of ((m1, e1), (m2, e2)) \<Rightarrow>
        (let k = 55 + bits m2;
             q = (\<bar>m1\<bar> * 2 ^ k) div \<bar>m2\<bar>;
             r = (\<bar>m1\<bar> * 2 ^ k) mod \<bar>m2\<bar>;
             s = sgn m1 * sgn m2
         in if r = 0 then round53 (s * q) (e1 - e2 - int k)
            else round53 (s * (2 * q + 1)) (e1 - e2 - int k - 1)))"

definition dless :: "double \<Rightarrow> double \<Rightarrow> bool" where
  "dless x y =
     (case (x, y) of ((m1, e1), (m2, e2)) \<Rightarrow>
        (let e = min e1 e2 in m1 * 2 ^ nat (e1 - e) < m2 * 2 ^ nat (e2 - e)))"

definition double_arith :: "double arith" where
  "double_arith =
     \<lparr>plus_op = dplus, minus_op = dminus, times_op = dtimes, divide_op = ddivide,
      less_op = dless, literal = (\<lambda>n. round53 (int n) 0)\<rparr>"

text \<open>
  Font parameters and boxes for the examples, in both arithmetics. In the doubles the
  rule thickness is the double written \<open>0.1\<close>, that is \<open>3602879701896397 * 2 ^ -55\<close>, and
  \<open>0.5\<close> and \<open>0.25\<close> are exact.
\<close>

definition ex_tex :: "real font_params" where
  "ex_tex = \<lparr>num1 = 1 / 2, num2 = 2 / 5, num3 = 1 / 4, denom1 = 1 / 2, denom2 = 1 / 4,
     rule_thickness = 1 / 10, axis_height = 1 / 4, nulldelimiterspace = 1 / 10\<rparr>"

definition ex_box :: "real \<Rightarrow> real \<Rightarrow> real BBox" where
  "ex_box height depth =
     \<lparr>bbox_w = 1, bbox_h = height, bbox_d = depth, bbox_scale = 1, bbox_rscale = 1\<rparr>"

definition ex_double_tex :: "double font_params" where
  "ex_double_tex =
     \<lparr>num1 = (1, - 1), num2 = (1, - 1), num3 = (1, - 2), denom1 = (1, - 1), denom2 = (1, - 2),
      rule_thickness = (3602879701896397, - 55), axis_height = (1, - 2),
      nulldelimiterspace = (3602879701896397, - 55)\<rparr>"

definition ex_double_box :: "double \<Rightarrow> double \<Rightarrow> double BBox" where
  "ex_double_box height depth =
     \<lparr>bbox_w = (1, 0), bbox_h = height, bbox_d = depth, bbox_scale = (1, 0),
      bbox_rscale = (1, 0)\<rparr>"

section \<open>The quoted-text wrapper (CommonMs)\<close>

text \<open>
  The wrapper after the base constructor: its variant, its child wrappers, and the two
  questions the constructor asks the node's attributes, \<open>getList\<close> (the value of an
  attribute: explicit, inherited or default) and \<open>isSet\<close> (it is explicit on the node).
  \<open>createText\<close> is a parameter: it builds the text wrapper of a string.
\<close>

record 'w Wrapper =
  variant :: jsstring
  childNodes :: "'w list"
  attributes_getList :: "jsstring \<Rightarrow> jsstring"
  attributes_isSet :: "jsstring \<Rightarrow> bool"

definition CommonMs :: "(jsstring \<Rightarrow> 'w) \<Rightarrow> 'w Wrapper \<Rightarrow> 'w Wrapper" where
  "CommonMs createText this =
     (let lquote = attributes_getList this (js ''lquote'');
          rquote = attributes_getList this (js ''rquote'');
          lquote1 = (if variant this \<noteq> js ''monospace'' \<and>
                        \<not> attributes_isSet this (js ''lquote'') \<and> lquote = [0x22]
                     then [0x201C] else lquote);
          rquote1 = (if variant this \<noteq> js ''monospace'' \<and>
                        \<not> attributes_isSet this (js ''rquote'') \<and> rquote = [0x22]
                     then [0x201D] else rquote);
          this1 = this\<lparr>childNodes := createText lquote1 # childNodes this\<rparr>
      in this1\<lparr>childNodes := childNodes this1 @ [createText rquote1]\<rparr>)"

text \<open>
  A quoted text for the examples, with the text wrappers as their strings: the left
  quote is set on the node, the right quote is the default.
\<close>

definition ex_ms :: "jsstring \<Rightarrow> jsstring Wrapper" where
  "ex_ms var =
     \<lparr>variant = var, childNodes = [js ''abc''],
      attributes_getList = (\<lambda>name. if name = js ''lquote'' then [0xAB] else [0x22]),
      attributes_isSet = (\<lambda>name. name = js ''lquote'')\<rparr>"

section \<open>The scanner keeps the lengths of its node lists\<close>

lemma consistent_init: "consistent init"
  by (simp add: consistent_def init_def)

lemma consistent_pushString: "consistent s \<Longrightarrow> consistent (pushString s)"
  by (simp add: consistent_def pushString_def Let_def list_all2_appendI)

lemma lengths_total_snoc:
  "lengths_total (ns @ [(n, Some a)]) = map_option (\<lambda>b. b + a) (lengths_total ns)"
  by (induction ns) (auto split: option.splits simp: option.map_comp comp_def add.assoc)

lemma consistent_extendString:
  "consistent s \<Longrightarrow> consistent (extendString s n (JSString t))"
  by (simp add: consistent_def extendString_def lengths_total_snoc)

lemma consistent_stack: "consistent (s\<lparr>stack := st\<rparr>) = consistent s"
  by (simp add: consistent_def)

lemma consistent_handleContainer:
  "consistent s \<Longrightarrow> handleContainer A opts s n ig = (s', n', ig') \<Longrightarrow> consistent s'"
  by (auto simp: handleContainer_def Let_def consistent_stack consistent_pushString
      split: if_splits option.splits)

lemma consistent_handleTag:
  assumes "texts_are_strings A opts" and "consistent s"
    and "handleTag A opts s n ig = Some (s', n')"
  shows "consistent s'"
proof (cases "includeTags opts (kind A n)")
  case None
  with assms(2,3) show ?thesis by (auto simp: handleTag_def split: if_splits)
next
  case (Some v)
  from assms(1) have "case includeTags opts (kind A n) of
      Some (JSOther l t) \<Rightarrow> False | _ \<Rightarrow> True"
    unfolding texts_are_strings_def by (rule spec)
  with Some obtain t where "v = JSString t" by (cases v) auto
  with Some assms(2,3) show ?thesis
    by (auto simp: handleTag_def consistent_extendString split: if_splits)
qed

lemma consistent_dispatch:
  assumes "texts_are_strings A opts" and "consistent s"
    and "dispatch A opts s n ig = Some (s', n', ig')"
  shows "consistent s'"
proof -
  have "consistent (fst (handleText A s n ig))"
    using assms(2) by (simp add: handleText_def consistent_extendString)
  with assms show ?thesis
    by (auto simp: dispatch_def split: if_splits option.splits prod.splits
        dest: consistent_handleContainer consistent_handleTag)
qed

lemma consistent_resume:
  "consistent s \<Longrightarrow> resume (s, n, ig) = (s', n', ig') \<Longrightarrow> consistent s'"
  by (auto simp: resume_def Let_def consistent_stack consistent_pushString split: if_splits)

lemma consistent_scan:
  assumes t: "texts_are_strings A opts"
  shows "consistent s \<Longrightarrow> scan k A opts stop s cur ig = Some s' \<Longrightarrow> consistent s'"
proof (induction k arbitrary: s cur ig)
  case 0
  then show ?case by simp
next
  case (Suc k)
  show ?case
  proof (cases cur)
    case None
    with Suc.prems show ?thesis by simp
  next
    case (Some n)
    show ?thesis
    proof (cases "cur = stop")
      case True
      with Suc.prems Some show ?thesis by simp
    next
      case False
      from Suc.prems(2) Some False obtain c where
        d: "dispatch A opts s n ig = Some c" by (auto split: option.splits)
      obtain s1 n1 ig1 where c: "c = (s1, n1, ig1)" by (cases c) auto
      obtain s2 n2 ig2 where r: "resume (s1, n1, ig1) = (s2, n2, ig2)"
        by (cases "resume (s1, n1, ig1)") auto
      from Suc.prems(2) Some False d c r have
        rest: "scan k A opts stop s2 n2 ig2 = Some s'" by simp
      from t Suc.prems(1) d [unfolded c] have "consistent s1" by (rule consistent_dispatch)
      then have "consistent s2" using r by (rule consistent_resume)
      then show ?thesis using rest by (rule Suc.IH)
    qed
  qed
qed

section \<open>The scanner returns on a host tree\<close>

lemma dsize_children: "dsize t = Suc (sum_list (map dsize (children t)))"
  by (cases t) simp_all

lemma node_at_snoc:
  "node_at d (q @ [i]) =
     (case node_at d q of
        None \<Rightarrow> None
      | Some t \<Rightarrow> if i < length (children t) then Some (children t ! i) else None)"
  by (induction q arbitrary: d) (simp_all)

lemma rest_size_next:
  assumes "node_at d p = Some t"
  shows "rest_size d p = dsize t + (case dom_next d p of None \<Rightarrow> 0 | Some q \<Rightarrow> rest_size d q)"
proof (cases "p = []")
  case True
  with assms show ?thesis by (simp add: rest_size_def forest_at_def dom_next_def)
next
  case False
  then obtain q i where p: "p = q @ [i]" by (metis append_butlast_last_id)
  from assms p obtain u where u: "node_at d q = Some u" "i < length (children u)" "t = children u ! i"
    by (auto simp: node_at_snoc split: option.splits if_splits)
  have "drop i (children u) = t # drop (Suc i) (children u)"
    using u by (simp add: Cons_nth_drop_Suc)
  then show ?thesis using p u
    by (auto simp: rest_size_def forest_at_def dom_next_def node_at_snoc Let_def)
qed

lemma rest_size_firstChild:
  assumes "node_at d p = Some t"
  shows "dsize t = Suc (case dom_firstChild d p of None \<Rightarrow> 0 | Some c \<Rightarrow> rest_size d c)"
  using assms
  by (cases "children t")
     (auto simp: dom_firstChild_def node_at_snoc rest_size_def forest_at_def dsize_children [of t])

lemma dom_next_valid: "dom_next d p = Some q \<Longrightarrow> \<exists>t. node_at d q = Some t"
  by (auto simp: dom_next_def Let_def split: if_splits)

lemma dom_firstChild_valid: "dom_firstChild d p = Some q \<Longrightarrow> \<exists>t. node_at d q = Some t"
  by (auto simp: dom_firstChild_def split: if_splits)

lemma stack_pushString: "stack (pushString s) = stack s"
  by (simp add: pushString_def Let_def)

lemma stack_extendString: "stack (extendString s n t) = stack s"
  by (simp add: extendString_def)

lemma dispatch_total: "dispatch A opts s n ig \<noteq> None"
  by (cases "includeTags opts (kind A n)")
     (simp_all add: dispatch_def handleText_def handleTag_def del: not_None_eq)

lemma dispatch_moves:
  assumes "dispatch A opts s n ig = Some (s1, cur1, ig1)"
  shows "(stack s1 = stack s \<and> cur1 = next_node A n) \<or>
         (firstChild A n \<noteq> None \<and> cur1 = firstChild A n \<and>
          stack s1 = (case next_node A n of None \<Rightarrow> stack s | Some m \<Rightarrow> stack s @ [(m, ig)]))"
  using assms
  by (auto simp: dispatch_def handleText_def handleTag_def handleContainer_def Let_def
      stack_pushString stack_extendString split: if_splits option.splits)

lemma resume_moves:
  assumes "resume (s1, cur1, ig1) = (s', cur', ig')"
  shows "(cur' = cur1 \<and> stack s' = stack s1 \<and> \<not> (cur1 = None \<and> stack s1 \<noteq> [])) \<or>
         (cur1 = None \<and> stack s1 \<noteq> [] \<and> cur' = Some (fst (last (stack s1))) \<and>
          stack s' = butlast (stack s1))"
  using assms by (auto simp: resume_def Let_def stack_pushString split: if_splits)

lemma rest_size_pos: "node_at d p \<noteq> None \<Longrightarrow> 0 < rest_size d p"
  by (auto simp: rest_size_next dsize_children)

lemma work_pop:
  "stk \<noteq> [] \<Longrightarrow> work d (Some (fst (last stk))) (butlast stk) = work d None stk"
  by (induction stk rule: rev_induct) (simp_all add: work_def)

lemma valid_pop:
  "stk \<noteq> [] \<Longrightarrow> valid_state d None stk \<Longrightarrow> valid_state d (Some (fst (last stk))) (butlast stk)"
  by (induction stk rule: rev_induct) (simp_all add: valid_state_def)

lemma dispatch_work:
  assumes v: "valid_state d (Some p) (stack s)"
    and dp: "dispatch (dom_adaptor d) opts s p ig = Some (s1, cur1, ig1)"
  shows "work d cur1 (stack s1) < work d (Some p) (stack s) \<and> valid_state d cur1 (stack s1)"
proof -
  from v obtain t where t: "node_at d p = Some t" by (auto simp: valid_state_def)
  have nx: "next_node (dom_adaptor d) p = dom_next d p"
    and fc: "firstChild (dom_adaptor d) p = dom_firstChild d p"
    by (simp_all add: dom_adaptor_def)
  note r = rest_size_next [OF t] rest_size_firstChild [OF t]
  from dispatch_moves [OF dp] show ?thesis
  proof
    assume "stack s1 = stack s \<and> cur1 = next_node (dom_adaptor d) p"
    then show ?thesis using v r
      by (auto simp: work_def valid_state_def nx dom_next_valid split: option.splits)
  next
    assume a: "firstChild (dom_adaptor d) p \<noteq> None \<and> cur1 = firstChild (dom_adaptor d) p \<and>
      stack s1 = (case next_node (dom_adaptor d) p of
                    None \<Rightarrow> stack s | Some m \<Rightarrow> stack s @ [(m, ig)])"
    then show ?thesis using v r
      by (auto simp: work_def valid_state_def nx fc dom_next_valid dom_firstChild_valid
          split: option.splits)
  qed
qed

lemma step_work:
  assumes v: "valid_state d (Some p) (stack s)"
    and dp: "dispatch (dom_adaptor d) opts s p ig = Some c"
    and rs: "resume c = (s', cur', ig')"
  shows "work d cur' (stack s') < work d (Some p) (stack s) \<and> valid_state d cur' (stack s')"
proof -
  obtain s1 cur1 ig1 where c: "c = (s1, cur1, ig1)" by (cases c) auto
  from dispatch_work [OF v dp [unfolded c]] have
    w: "work d cur1 (stack s1) < work d (Some p) (stack s)" and
    v1: "valid_state d cur1 (stack s1)" by simp_all
  from resume_moves [OF rs [unfolded c]] show ?thesis
  proof
    assume "cur' = cur1 \<and> stack s' = stack s1 \<and> \<not> (cur1 = None \<and> stack s1 \<noteq> [])"
    with w v1 show ?thesis by simp
  next
    assume a: "cur1 = None \<and> stack s1 \<noteq> [] \<and> cur' = Some (fst (last (stack s1))) \<and>
      stack s' = butlast (stack s1)"
    with w v1 show ?thesis by (simp add: work_pop valid_pop)
  qed
qed

lemma scan_returns:
  "valid_state d cur (stack s) \<Longrightarrow> work d cur (stack s) < k \<Longrightarrow>
   scan k (dom_adaptor d) opts stop s cur ig \<noteq> None"
proof (induction k arbitrary: s cur ig)
  case 0
  then show ?case by simp
next
  case (Suc k)
  show ?case
  proof (cases cur)
    case None
    then show ?thesis by simp
  next
    case (Some p)
    obtain c where c: "dispatch (dom_adaptor d) opts s p ig = Some c"
      using dispatch_total by fastforce
    obtain s' cur' ig' where r: "resume c = (s', cur', ig')" by (cases "resume c") auto
    from Suc.prems(1) Some have v: "valid_state d (Some p) (stack s)" by simp
    from step_work [OF v c r] Suc.prems(2) Some
    have "valid_state d cur' (stack s')" "work d cur' (stack s') < k" by simp_all
    then have "scan k (dom_adaptor d) opts stop s' cur' ig' \<noteq> None" by (rule Suc.IH)
    with Some c r show ?thesis by simp
  qed
qed

lemma find_strings_returns:
  assumes "node_at d p \<noteq> None"
  shows "find_strings (Suc (rest_size d p)) (dom_adaptor d) opts p \<noteq> None"
proof -
  have "valid_state d (Some p) (stack (init :: nat list scanner))"
    using assms by (simp add: valid_state_def init_def)
  moreover have "work d (Some p) (stack (init :: nat list scanner)) < Suc (rest_size d p)"
    by (simp add: work_def init_def)
  ultimately have "scan (Suc (rest_size d p)) (dom_adaptor d) opts
      (next_node (dom_adaptor d) p) init (Some p) False \<noteq> None"
    by (rule scan_returns)
  then show ?thesis by (auto simp: find_strings_def Let_def)
qed

lemma scan_more_fuel:
  "scan k A opts stop s cur ig = Some r \<Longrightarrow> scan (k + j) A opts stop s cur ig = Some r"
proof (induction k arbitrary: s cur ig)
  case 0
  then show ?case by simp
next
  case (Suc k)
  then show ?case
    by (auto split: option.splits prod.splits if_splits)
qed

lemma find_strings_more_fuel:
  "find_strings k A opts n = Some r \<Longrightarrow> find_strings (k + j) A opts n = Some r"
  by (auto simp: find_strings_def Let_def scan_more_fuel split: option.splits)

section \<open>The lengths of the returned node lists\<close>

lemma example_find:
  "find_strings 30 (dom_adaptor example_dom) OPTIONS [] =
     Some ([js ''a '' @ [10], js ''shown'', js ''z''],
           [[([0], Some 2), ([1], Some 1)], [([2, 1, 0], Some 5)], [([5], Some 1)]])"
  by code_simp

text \<open>
  Where every text that \<open>includeTags\<close> has for the kind of a node is a string, a call
  of \<open>find\<close> that returns gives one node list per string, in the same order, and the
  lengths of each node list add up to the length of its string.
\<close>

lemma find_lengths_of_string_texts:
  assumes "texts_are_strings A opts"
    and "find_strings fuel A opts start = Some (strs, nds)"
  shows "length nds = length strs \<and>
         (\<forall>i < length strs. lengths_total (nds ! i) = Some (length (strs ! i)))"
proof -
  from assms(2) obtain s where
    sc: "scan fuel A opts (next_node A start) init (Some start) False = Some s" and
    res: "strs = strings (pushString s)" "nds = nodes (pushString s)"
    by (auto simp: find_strings_def Let_def split: option.splits)
  from assms(1) consistent_init sc have "consistent s" by (rule consistent_scan)
  then have "consistent (pushString s)" by (rule consistent_pushString)
  with res have "list_all2 (\<lambda>str ns. lengths_total ns = Some (length str)) strs nds"
    by (simp add: consistent_def)
  then show ?thesis by (auto simp: list_all2_conv_all_nth)
qed

text \<open>
  C1 does not hold of the code at an element whose kind is a member of
  \<open>Object.prototype\<close>. With the default options, \<open>include['constructor']\<close> is the
  inherited function \<open>Object\<close>, not \<open>undefined\<close>, so the element is handled as an
  included tag: \<open>extendString\<close> records the function's \<open>length\<close>, 1, and appends its
  source text, 35 characters. The one string returned has 37 characters and its node
  list has the lengths 1, 1 and 1.
\<close>

theorem find_inherited_constructor:
  "find_strings 30 (dom_adaptor constructor_dom) OPTIONS [] =
     Some ([js ''a'' @ js ''function Object() { [native code] }'' @ js ''c''],
           [[([0], Some 1), ([1], Some 1), ([2], Some 1)]]) \<and>
   length (js ''a'' @ js ''function Object() { [native code] }'' @ js ''c'') = 37 \<and>
   lengths_total [([0::nat], Some 1), ([1], Some 1), ([2], Some 1)] = Some 3"
  by code_simp

section \<open>Flushing the string under construction\<close>

text \<open>
  C9. At a flush, a string with no character other than white space is not added to
  the results, and its node list is dropped with it: the strings and node lists stay as
  they were. In every case the string and its node list are reset, so the node list of
  the next string starts with the next node that adds text.
\<close>

theorem pushString_whitespace_discarded:
  "(\<not> matchNonSpace (string s) \<longrightarrow>
      strings (pushString s) = strings s \<and> nodes (pushString s) = nodes s) \<and>
   string (pushString s) = [] \<and> snodes (pushString s) = [] \<and>
   snodes (extendString (pushString s) n (JSString t)) = [(n, Some (length t))] \<and>
   string (extendString (pushString s) n (JSString t)) = t"
  by (simp add: pushString_def extendString_def Let_def)

theorem pushString_whitespace_discarded_witness:
  "\<not> matchNonSpace (string (init\<lparr>string := js '' '', snodes := [(3::nat, Some 1)]\<rparr>)) \<and>
   strings (pushString (init\<lparr>string := js '' '', snodes := [(3::nat, Some 1)]\<rparr>)) = [] \<and>
   nodes (pushString (init\<lparr>string := js '' '', snodes := [(3::nat, Some 1)]\<rparr>)) = [] \<and>
   snodes (extendString (pushString (init\<lparr>string := js '' '', snodes := [(3::nat, Some 1)]\<rparr>)) 4
       (JSString (js ''z'')))
     = [(4, Some 1)]"
  using pushString_whitespace_discarded
    [of "init\<lparr>string := js '' '', snodes := [(3::nat, Some 1)]\<rparr>" 4 "js ''z''"]
  by (simp add: init_def js_def matchNonSpace_def isWhiteSpace_def)

section \<open>The ignore flag\<close>



section \<open>Nodes marked as output\<close>

lemma marked_handleContainer:
  "truthy (getAttribute A n (js ''data-MJX'')) \<Longrightarrow>
   handleContainer A opts s n ig = (pushString s, next_node A n, ig)"
  by (simp add: handleContainer_def Let_def)

lemma with_firstChild_simps:
  "next_node (with_firstChild A n c) = next_node A"
  "kind (with_firstChild A n c) = kind A"
  "getAttribute (with_firstChild A n c) = getAttribute A"
  "value_of (with_firstChild A n c) = value_of A"
  "firstChild (with_firstChild A n c) m = (if m = n then c else firstChild A m)"
  by (simp_all add: with_firstChild_def)

lemma with_firstChild_handleText:
  "handleText (with_firstChild A n c) s m ig = handleText A s m ig"
  by (simp add: handleText_def with_firstChild_simps)

lemma with_firstChild_handleTag:
  "handleTag (with_firstChild A n c) opts s m ig = handleTag A opts s m ig"
  by (simp add: handleTag_def with_firstChild_simps split: option.splits)

lemma marked_with_firstChild_handleContainer:
  assumes "truthy (getAttribute A n (js ''data-MJX''))"
  shows "handleContainer (with_firstChild A n c) opts s m ig = handleContainer A opts s m ig"
proof (cases "m = n")
  case True
  with assms show ?thesis
    by (simp add: handleContainer_def Let_def with_firstChild_simps)
next
  case False
  then show ?thesis
    by (simp add: handleContainer_def Let_def with_firstChild_simps)
qed

lemma marked_dispatch:
  assumes "truthy (getAttribute A n (js ''data-MJX''))"
  shows "dispatch (with_firstChild A n c) opts s m ig = dispatch A opts s m ig"
  by (simp add: dispatch_def with_firstChild_handleText with_firstChild_handleTag
      marked_with_firstChild_handleContainer [OF assms] with_firstChild_simps)

lemma marked_scan:
  assumes "truthy (getAttribute A n (js ''data-MJX''))"
  shows "scan k (with_firstChild A n c) opts stop s cur ig = scan k A opts stop s cur ig"
proof (induction k arbitrary: s cur ig)
  case 0
  show ?case by simp
next
  case (Suc k)
  show ?case
    by (simp add: marked_dispatch [OF assms] Suc.IH split: option.splits prod.splits)
qed

text \<open>
  C5, as amended. At a node whose \<open>data-MJX\<close> attribute is a non-empty string,
  \<open>handleContainer\<close> goes on to the next sibling, and what \<open>find\<close> returns does not
  depend on what the first child of that node is: nothing below the node is read.
\<close>

theorem find_skips_marked_output:
  assumes "truthy (getAttribute A n (js ''data-MJX''))"
  shows "handleContainer A opts s n ig = (pushString s, next_node A n, ig) \<and>
         find_strings fuel (with_firstChild A n c) opts start = find_strings fuel A opts start"
proof
  show "handleContainer A opts s n ig = (pushString s, next_node A n, ig)"
    using assms by (rule marked_handleContainer)
  show "find_strings fuel (with_firstChild A n c) opts start = find_strings fuel A opts start"
    by (simp add: find_strings_def marked_scan [OF assms] with_firstChild_simps)
qed

lemma ex_marked: "truthy (getAttribute (dom_adaptor example_dom) [4] (js ''data-MJX''))"
  by code_simp

text \<open>
  C5, as stated, fails: a node that carries \<open>data-mjx-error\<close> and not \<open>data-MJX\<close>
  is scanned like any other element. The text below the error span is returned, with
  the text node as its source.
\<close>

theorem find_descends_into_error_output:
  "truthy (getAttribute (dom_adaptor error_dom) [0] (js ''data-mjx-error'')) \<and>
   firstChild (dom_adaptor error_dom) [0] = Some [0, 0] \<and>
   find_strings 30 (dom_adaptor error_dom) OPTIONS [] =
     Some ([js ''Math output error''], [[([0, 0], Some 17)]])"
  by code_simp

theorem find_skips_marked_output_witness:
  "truthy (getAttribute (dom_adaptor example_dom) [4] (js ''data-MJX'')) \<and>
   firstChild (dom_adaptor example_dom) [4] = Some [4, 0] \<and>
   handleContainer (dom_adaptor example_dom) OPTIONS init [4] False = (init, Some [5], False) \<and>
   find_strings 30 (with_firstChild (dom_adaptor example_dom) [4] None) OPTIONS [] =
     Some ([js ''a '' @ [10], js ''shown'', js ''z''],
           [[([0], Some 2), ([1], Some 1)], [([2, 1, 0], Some 5)], [([5], Some 1)]])"
proof -
  have 1: "firstChild (dom_adaptor example_dom) [4] = Some [4, 0]" by code_simp
  have 2: "pushString (init :: nat list scanner) = init"
    by (simp add: pushString_def init_def matchNonSpace_def)
  have 3: "next_node (dom_adaptor example_dom) [4] = Some [5]" by code_simp
  from find_skips_marked_output [OF ex_marked, of OPTIONS init False 30 None "[]"]
    ex_marked 1 2 3 example_find
  show ?thesis by simp
qed

section \<open>Errors in compile\<close>

lemma compile_items_pass:
  "list_all (\<lambda>i. \<not> aborts (math_compile X) i) items \<Longrightarrow>
   compile_items X opts items = (map (compiled_item X opts) items, None)"
proof (induction items)
  case Nil
  show ?case by simp
next
  case (Cons item items)
  then show ?case
    by (cases "math_compile X item")
       (auto simp: aborts_def compiled_item_def Let_def split: option.splits)
qed

lemma compile_items_abort:
  assumes "list_all (\<lambda>i. \<not> aborts (math_compile X) i) before"
    and "math_compile X item = (item1, Some err)" and "retry err \<or> restart err"
  shows "compile_items X opts (before @ item # after) =
           (map (compiled_item X opts) before @ item1 # after, Some err)"
  using assms(1)
proof (induction before)
  case Nil
  from assms(2,3) show ?case by auto
next
  case (Cons b before)
  then show ?case
    by (cases "math_compile X b")
       (auto simp: aborts_def compiled_item_def Let_def split: option.splits)
qed

lemma compileError_root:
  "root (compileError item err) = Some (input_error_tree (message err) (display item))"
  by (simp add: compileError_def input_error_tree_def Let_def)

lemma ex_compile:
  "math_compile ex_externals (ex_item ''a'') =
     ((ex_item ''a'')\<lparr>root := Some (TextNode (js ''a'')), item_state := 1\<rparr>, None)"
  "math_compile ex_externals (ex_item ''b'') =
     ((ex_item ''b'')\<lparr>root := Some (TextNode (js ''b'')), item_state := 1\<rparr>, None)"
  "math_compile ex_externals (ex_item ''bad'') = (ex_item ''bad'', Some (ex_error False))"
  "math_compile ex_externals (ex_item ''wait'') = (ex_item ''wait'', Some (ex_error True))"
  by (simp_all add: ex_externals_def ex_item_def js_def)

lemma ex_aborts:
  "\<not> aborts (math_compile ex_externals) (ex_item ''a'')"
  "\<not> aborts (math_compile ex_externals) (ex_item ''b'')"
  "\<not> aborts (math_compile ex_externals) (ex_item ''bad'')"
  "aborts (math_compile ex_externals) (ex_item ''wait'')"
  by (simp_all add: aborts_def ex_compile ex_error_def)

lemma ex_compiled_state:
  "item_state (compiled_item ex_externals OPTIONS_doc (ex_item ''a'')) = 1"
  "item_state (compiled_item ex_externals OPTIONS_doc (ex_item ''b'')) = 1"
  "item_state (compiled_item ex_externals OPTIONS_doc (ex_item ''bad'')) = 0"
proof -
  show "item_state (compiled_item ex_externals OPTIONS_doc (ex_item ''a'')) = 1"
    by (simp add: compiled_item_def ex_compile)
  show "item_state (compiled_item ex_externals OPTIONS_doc (ex_item ''b'')) = 1"
    by (simp add: compiled_item_def ex_compile)
  have "item_state (compileError (ex_item ''bad'') (ex_error False)) = 0"
    by (simp add: compileError_def Let_def ex_item_def)
  then show "item_state (compiled_item ex_externals OPTIONS_doc (ex_item ''bad'')) = 0"
    by (simp add: compiled_item_def ex_compile OPTIONS_doc_def)
qed

text \<open>
  C2. For a document whose \<open>compile\<close> flag is not set, \<open>compile\<close> goes through the
  items in order. When no item throws a value flagged retry or restart, it returns, every
  item is the result of its own turn (an item that threw has been given to the
  \<open>compileError\<close> handler and has the error recorded in its input data), and the flag is
  set. When an item throws a value flagged retry or restart, \<open>compile\<close> throws that
  value: the items before it have had their turns, the items after it are untouched, and
  the flag is still not set. With the default handler the item's root is the
  \<open>Math input error\<close> tree, with \<open>display\<close> set to \<open>block\<close> for a display item.
\<close>

theorem compile_error_policy:
  assumes "processed doc ''compile'' \<noteq> Some True"
  shows
    "(list_all (\<lambda>i. \<not> aborts (math_compile X) i) (math doc) \<longrightarrow>
        compile X opts doc =
          Returns (doc\<lparr>math := map (compiled_item X opts) (math doc),
                      processed := (processed doc)(''compile'' \<mapsto> True)\<rparr>)) \<and>
     (math doc = before @ item # after \<and>
      list_all (\<lambda>i. \<not> aborts (math_compile X) i) before \<and>
      math_compile X item = (item1, Some err) \<and> (retry err \<or> restart err) \<longrightarrow>
        compile X opts doc =
          Throws err (doc\<lparr>math := map (compiled_item X opts) before @ item1 # after\<rparr>) \<and>
        processed (doc\<lparr>math := map (compiled_item X opts) before @ item1 # after\<rparr>) ''compile''
          \<noteq> Some True) \<and>
     (math_compile X item = (item1, Some err) \<longrightarrow>
        compiled_item X opts item =
          (compileError_option opts item1 err)
            \<lparr>inputData := (inputData (compileError_option opts item1 err))(''error'' \<mapsto> err)\<rparr> \<and>
        inputData (compiled_item X opts item) ''error'' = Some err \<and>
        root (compiled_item X OPTIONS_doc item) =
          Some (input_error_tree (message err) (display item1)))"
proof (intro conjI impI)
  assume "list_all (\<lambda>i. \<not> aborts (math_compile X) i) (math doc)"
  then show "compile X opts doc =
      Returns (doc\<lparr>math := map (compiled_item X opts) (math doc),
                  processed := (processed doc)(''compile'' \<mapsto> True)\<rparr>)"
    using assms by (simp add: compile_def compile_items_pass)
next
  assume a: "math doc = before @ item # after \<and>
      list_all (\<lambda>i. \<not> aborts (math_compile X) i) before \<and>
      math_compile X item = (item1, Some err) \<and> (retry err \<or> restart err)"
  then have "compile_items X opts (math doc) =
      (map (compiled_item X opts) before @ item1 # after, Some err)"
    by (simp add: compile_items_abort)
  then show "compile X opts doc =
      Throws err (doc\<lparr>math := map (compiled_item X opts) before @ item1 # after\<rparr>)"
    using assms by (simp add: compile_def)
  show "processed (doc\<lparr>math := map (compiled_item X opts) before @ item1 # after\<rparr>) ''compile''
          \<noteq> Some True"
    using assms by simp
next
  assume m: "math_compile X item = (item1, Some err)"
  then show "compiled_item X opts item =
          (compileError_option opts item1 err)
            \<lparr>inputData := (inputData (compileError_option opts item1 err))(''error'' \<mapsto> err)\<rparr>"
    by (simp add: compiled_item_def)
  from m show "inputData (compiled_item X opts item) ''error'' = Some err"
    by (simp add: compiled_item_def)
  from m show "root (compiled_item X OPTIONS_doc item) =
          Some (input_error_tree (message err) (display item1))"
    by (simp add: compiled_item_def OPTIONS_doc_def compileError_root)
qed

theorem compile_error_policy_witness:
  "processed (ex_doc [''a'', ''bad'', ''b'']) ''compile'' \<noteq> Some True \<and>
   list_all (\<lambda>i. \<not> aborts (math_compile ex_externals) i) (math (ex_doc [''a'', ''bad'', ''b''])) \<and>
   compile ex_externals OPTIONS_doc (ex_doc [''a'', ''bad'', ''b'']) =
     Returns ((ex_doc [''a'', ''bad'', ''b''])
       \<lparr>math := map (compiled_item ex_externals OPTIONS_doc) (math (ex_doc [''a'', ''bad'', ''b''])),
        processed := (processed (ex_doc [''a'', ''bad'', ''b'']))(''compile'' \<mapsto> True)\<rparr>) \<and>
   map item_state (map (compiled_item ex_externals OPTIONS_doc)
     (math (ex_doc [''a'', ''bad'', ''b'']))) = [1, 0, 1] \<and>
   inputData (compiled_item ex_externals OPTIONS_doc (ex_item ''bad'')) ''error'' = Some (ex_error False) \<and>
   root (compiled_item ex_externals OPTIONS_doc (ex_item ''bad'')) =
     Some (input_error_tree (message (ex_error False)) (display (ex_item ''bad''))) \<and>
   display (ex_item ''bad'') \<and>
   math (ex_doc [''a'', ''wait'', ''bad'']) = [ex_item ''a''] @ ex_item ''wait'' # [ex_item ''bad''] \<and>
   retry (ex_error True) \<and>
   compile ex_externals OPTIONS_doc (ex_doc [''a'', ''wait'', ''bad'']) =
     Throws (ex_error True) ((ex_doc [''a'', ''wait'', ''bad''])
       \<lparr>math := map (compiled_item ex_externals OPTIONS_doc) [ex_item ''a''] @
                 ex_item ''wait'' # [ex_item ''bad'']\<rparr>) \<and>
   processed ((ex_doc [''a'', ''wait'', ''bad''])
       \<lparr>math := map (compiled_item ex_externals OPTIONS_doc) [ex_item ''a''] @
                 ex_item ''wait'' # [ex_item ''bad'']\<rparr>) ''compile'' \<noteq> Some True"
proof -
  have n: "processed (ex_doc srcs) ''compile'' \<noteq> Some True" for srcs
    by (simp add: ex_doc_def constructor_processed_def)
  have m: "math (ex_doc srcs) = map ex_item srcs" for srcs
    by (simp add: ex_doc_def)
  have p: "list_all (\<lambda>i. \<not> aborts (math_compile ex_externals) i) (math (ex_doc [''a'', ''bad'', ''b'']))"
    by (simp add: m ex_aborts)
  have st: "map item_state (map (compiled_item ex_externals OPTIONS_doc)
     (math (ex_doc [''a'', ''bad'', ''b'']))) = [1, 0, 1]"
    by (simp add: m ex_compiled_state)
  have d: "display (ex_item ''bad'')" "retry (ex_error True)"
    by (simp_all add: ex_item_def ex_error_def)
  have q: "math (ex_doc [''a'', ''wait'', ''bad'']) = [ex_item ''a''] @ ex_item ''wait'' # [ex_item ''bad''] \<and>
      list_all (\<lambda>i. \<not> aborts (math_compile ex_externals) i) [ex_item ''a''] \<and>
      math_compile ex_externals (ex_item ''wait'') = (ex_item ''wait'', Some (ex_error True)) \<and>
      (retry (ex_error True) \<or> restart (ex_error True))"
    by (simp add: m ex_aborts ex_compile d)
  note t1 = compile_error_policy [OF n, of ex_externals "[''a'', ''bad'', ''b'']" OPTIONS_doc
      "[]" "ex_item ''bad''" "[]" "ex_item ''bad''" "ex_error False"]
  note t2 = compile_error_policy [OF n, of ex_externals "[''a'', ''wait'', ''bad'']" OPTIONS_doc
      "[ex_item ''a'']" "ex_item ''wait''" "[ex_item ''bad'']" "ex_item ''wait''" "ex_error True"]
  from t1 p ex_compile(3) t2 q n st d show ?thesis by blast
qed

section \<open>The default error fallbacks\<close>

text \<open>
  C10. The default \<open>compileError\<close> makes the item's root the \<open>Math input error\<close> tree
  whose \<open>data-mjx-error\<close> attribute is the message of the error, with \<open>display\<close> set
  to \<open>block\<close> exactly for a display item; the default \<open>typesetError\<close> makes the
  item's typeset root a span saying \<open>Math output error\<close> whose \<open>data-mjx-error\<close>
  attribute is the message.
\<close>

theorem error_fallbacks_record_message:
  "root (compileError item err) = Some (input_error_tree (message err) (display item)) \<and>
   attributes_get (input_error_tree (message err) (display item)) (js ''data-mjx-error'')
     = Some (message err) \<and>
   attributes_get (input_error_tree (message err) (display item)) (js ''display'')
     = (if display item then Some (js ''block'') else None) \<and>
   typesetRoot (typesetError item err) =
     Some (Element (js ''span'') [(js ''data-mjx-error'', message err)]
             [Text (js ''Math output error'')]) \<and>
   dom_getAttribute
     (Element (js ''span'') [(js ''data-mjx-error'', message err)] [Text (js ''Math output error'')])
     [] (js ''data-mjx-error'') = Some (message err)"
  by (simp add: compileError_root typesetError_def input_error_tree_def dom_getAttribute_def js_def)

section \<open>Rolling the document back\<close>

lemma for_each_Cons:
  "for_each f (item # items) host =
     (fst (f item host) # fst (for_each f items (snd (f item host))),
      snd (for_each f items (snd (f item host))))"
  by (simp split: prod.splits)

lemma for_each_fst:
  "list_all (\<lambda>i. \<forall>h. P (fst (f i h))) items \<Longrightarrow> list_all P (fst (for_each f items host))"
  by (induction items arbitrary: host) (simp_all add: for_each_Cons del: for_each.simps(2))

lemma for_each_snd:
  "snd (for_each f items host) = fold (\<lambda>i h. snd (f i h)) items host"
  by (induction items arbitrary: host) (simp_all add: for_each_Cons del: for_each.simps(2))

lemma for_each_length: "length (fst (for_each f items host)) = length items"
  by (induction items arbitrary: host) (simp_all add: for_each_Cons del: for_each.simps(2))

lemma compile_processed:
  "compile X opts doc = Returns d \<Longrightarrow>
   processed d = (if processed doc ''compile'' \<noteq> Some True
                  then (processed doc)(''compile'' \<mapsto> True) else processed doc)"
  by (auto simp: compile_def split: if_splits prod.splits option.splits)

lemma typeset_processed:
  "typeset X opts doc = Returns d \<Longrightarrow>
   processed d = (if processed doc ''typeset'' \<noteq> Some True
                  then (processed doc)(''typeset'' \<mapsto> True) else processed doc)"
  by (auto simp: typeset_def split: if_splits prod.splits option.splits)

lemma getMetrics_processed:
  "processed (getMetrics X doc) =
     (if processed doc ''getMetrics'' \<noteq> Some True
      then (processed doc)(''getMetrics'' \<mapsto> True) else processed doc)"
  by (simp add: getMetrics_def)

lemma updateDocument_processed:
  "processed (updateDocument X doc) =
     (if processed doc ''updateDocument'' \<noteq> Some True
      then (processed doc)(''updateDocument'' \<mapsto> True) else processed doc)"
  by (simp add: updateDocument_def split: prod.splits)

lemma full_run_all_processed:
  assumes "full_run X opts doc = Returns d"
  shows "all_processed d"
proof -
  from assms obtain d1 d2 where
    1: "compile X opts (findMath doc) = Returns d1" and
    2: "typeset X opts (getMetrics X d1) = Returns d2" and
    3: "d = updateDocument X d2"
    by (auto simp: full_run_def split: outcome.splits)
  have "processed (findMath doc) ''findMath'' = Some True" by (simp add: findMath_def)
  with compile_processed [OF 1] have
    p1: "processed d1 ''findMath'' = Some True \<and> processed d1 ''compile'' = Some True"
    by (auto split: if_splits)
  then have
    p2: "processed (getMetrics X d1) ''findMath'' = Some True \<and>
         processed (getMetrics X d1) ''compile'' = Some True \<and>
         processed (getMetrics X d1) ''getMetrics'' = Some True"
    by (auto simp: getMetrics_processed)
  with typeset_processed [OF 2] have
    p3: "processed d2 ''findMath'' = Some True \<and> processed d2 ''compile'' = Some True \<and>
         processed d2 ''getMetrics'' = Some True \<and> processed d2 ''typeset'' = Some True"
    by (auto split: if_splits)
  then show ?thesis unfolding 3 all_processed_def
    by (auto simp: updateDocument_processed)
qed

lemma state_processed:
  "processed (state X S doc target restore) =
     (\<lambda>name.
        if name = ''updateDocument'' then
          (if target < INSERTED S then Some False else processed doc name)
        else if name = ''typeset'' \<or> name = ''getMetrics'' then
          (if target < TYPESET S then Some False else processed doc name)
        else if name = ''compile'' then
          (if target < COMPILED S then Some False else processed doc name)
        else processed doc name)"
  by (auto simp: state_def Let_def fun_eq_iff split: prod.splits)

lemma state_math:
  "math (state X S doc target restore) =
     fst (for_each (\<lambda>item. math_state X item target restore) (math doc) (document doc))"
  by (auto simp: state_def Let_def split: prod.splits)

lemma compile_items_no_abort:
  "list_all (\<lambda>i. \<not> aborts (math_compile X) i) items \<Longrightarrow> snd (compile_items X opts items) = None"
  by (simp add: compile_items_pass)

lemma typeset_items_no_abort:
  "list_all (\<lambda>i. \<not> aborts (math_typeset X) i) items \<Longrightarrow> snd (typeset_items X opts items) = None"
proof (induction items)
  case Nil
  show ?case by simp
next
  case (Cons item items)
  then show ?case
    by (cases "math_typeset X item")
       (auto simp: aborts_def Let_def split: option.splits prod.splits)
qed

lemma compile_returns:
  "snd (compile_items X opts (math doc)) = None \<Longrightarrow> \<exists>d. compile X opts doc = Returns d"
  by (cases "compile_items X opts (math doc)") (auto simp: compile_def)

lemma typeset_returns:
  "snd (typeset_items X opts (math doc)) = None \<Longrightarrow> \<exists>d. typeset X opts doc = Returns d"
  by (cases "typeset_items X opts (math doc)") (auto simp: typeset_def)

lemma full_run_returns:
  assumes "list_all (\<lambda>i. \<not> aborts (math_compile X) i) (math doc)"
    and "\<And>i. \<not> aborts (math_typeset X) i"
  shows "\<exists>d. full_run X opts doc = Returns d"
proof -
  have "snd (compile_items X opts (math (findMath doc))) = None"
    using assms(1) by (simp add: compile_items_no_abort findMath_def)
  then obtain d1 where 1: "compile X opts (findMath doc) = Returns d1"
    using compile_returns by blast
  have "snd (typeset_items X opts (math (getMetrics X d1))) = None"
    by (rule typeset_items_no_abort) (simp add: assms(2) list_all_iff)
  then obtain d2 where 2: "typeset X opts (getMetrics X d1) = Returns d2"
    using typeset_returns by blast
  from 1 2 show ?thesis by (simp add: full_run_def)
qed

text \<open>
  C3. Provided the item's \<open>state(target, restore)\<close> leaves the item in the target
  state: after \<open>state(target, restore)\<close> every item is in the target state; the flag
  \<open>updateDocument\<close> is cleared if target < INSERTED, \<open>typeset\<close> and \<open>getMetrics\<close> if
  target < TYPESET, \<open>compile\<close> if target < COMPILED, and every other flag, \<open>findMath\<close>
  among them, is as before. With COMPILED below TYPESET and INSERTED, after a full run
  \<open>state(COMPILED, false)\<close> clears \<open>typeset\<close>, \<open>getMetrics\<close> and \<open>updateDocument\<close>
  and leaves \<open>compile\<close> and \<open>findMath\<close> set.
\<close>

theorem state_clears_later_stages:
  assumes "\<And>item host. item_state (fst (math_state X item target restore host)) = target"
    and "COMPILED S < TYPESET S" and "COMPILED S < INSERTED S"
  shows
    "list_all (\<lambda>item. item_state item = target) (math (state X S doc target restore)) \<and>
     length (math (state X S doc target restore)) = length (math doc) \<and>
     processed (state X S doc target restore) =
       (\<lambda>name.
          if name = ''updateDocument'' then
            (if target < INSERTED S then Some False else processed doc name)
          else if name = ''typeset'' \<or> name = ''getMetrics'' then
            (if target < TYPESET S then Some False else processed doc name)
          else if name = ''compile'' then
            (if target < COMPILED S then Some False else processed doc name)
          else processed doc name) \<and>
     (full_run X opts doc0 = Returns doc \<longrightarrow>
        processed (state X S doc (COMPILED S) False) ''typeset'' = Some False \<and>
        processed (state X S doc (COMPILED S) False) ''getMetrics'' = Some False \<and>
        processed (state X S doc (COMPILED S) False) ''updateDocument'' = Some False \<and>
        processed (state X S doc (COMPILED S) False) ''compile'' = Some True \<and>
        processed (state X S doc (COMPILED S) False) ''findMath'' = Some True)"
proof (intro conjI impI)
  show "list_all (\<lambda>item. item_state item = target) (math (state X S doc target restore))"
    unfolding state_math by (rule for_each_fst) (simp add: assms(1) list_all_iff)
  show "length (math (state X S doc target restore)) = length (math doc)"
    unfolding state_math by (rule for_each_length)
  show "processed (state X S doc target restore) =
       (\<lambda>name.
          if name = ''updateDocument'' then
            (if target < INSERTED S then Some False else processed doc name)
          else if name = ''typeset'' \<or> name = ''getMetrics'' then
            (if target < TYPESET S then Some False else processed doc name)
          else if name = ''compile'' then
            (if target < COMPILED S then Some False else processed doc name)
          else processed doc name)"
    by (rule state_processed)
next
  assume "full_run X opts doc0 = Returns doc"
  then have a: "all_processed doc" by (rule full_run_all_processed)
  show "processed (state X S doc (COMPILED S) False) ''typeset'' = Some False"
    using assms(2) by (simp add: state_processed)
  show "processed (state X S doc (COMPILED S) False) ''getMetrics'' = Some False"
    using assms(2) by (simp add: state_processed)
  show "processed (state X S doc (COMPILED S) False) ''updateDocument'' = Some False"
    using assms(3) by (simp add: state_processed)
  show "processed (state X S doc (COMPILED S) False) ''compile'' = Some True"
    using a by (simp add: state_processed all_processed_def)
  show "processed (state X S doc (COMPILED S) False) ''findMath'' = Some True"
    using a by (simp add: state_processed all_processed_def)
qed

theorem state_clears_later_stages_witness:
  "COMPILED ex_STATE < TYPESET ex_STATE \<and> COMPILED ex_STATE < INSERTED ex_STATE \<and>
   (case full_run ex_externals OPTIONS_doc (ex_doc [''a'', ''bad'']) of
      Throws e d \<Rightarrow> False
    | Returns d \<Rightarrow>
        processed d ''typeset'' = Some True \<and>
        list_all (\<lambda>item. item_state item = 1) (math (state ex_externals ex_STATE d 1 False)) \<and>
        length (math (state ex_externals ex_STATE d 1 False)) = length (math d) \<and>
        processed (state ex_externals ex_STATE d 1 False) ''typeset'' = Some False \<and>
        processed (state ex_externals ex_STATE d 1 False) ''getMetrics'' = Some False \<and>
        processed (state ex_externals ex_STATE d 1 False) ''updateDocument'' = Some False \<and>
        processed (state ex_externals ex_STATE d 1 False) ''compile'' = Some True \<and>
        processed (state ex_externals ex_STATE d 1 False) ''findMath'' = Some True)"
proof -
  have o: "COMPILED ex_STATE < TYPESET ex_STATE" "COMPILED ex_STATE < INSERTED ex_STATE"
    "COMPILED ex_STATE = 1"
    by (simp_all add: ex_STATE_def)
  have c: "item_state (fst (math_state ex_externals item 1 False host)) = 1" for item host
    by (simp add: ex_externals_def)
  have "list_all (\<lambda>i. \<not> aborts (math_compile ex_externals) i) (math (ex_doc [''a'', ''bad'']))"
    by (simp add: ex_doc_def ex_aborts)
  moreover have "\<not> aborts (math_typeset ex_externals) i" for i
    by (simp add: aborts_def ex_externals_def)
  ultimately obtain d where
    r: "full_run ex_externals OPTIONS_doc (ex_doc [''a'', ''bad'']) = Returns d"
    using full_run_returns by blast
  then have a: "all_processed d" by (rule full_run_all_processed)
  from state_clears_later_stages [of ex_externals 1 False ex_STATE d OPTIONS_doc
      "ex_doc [''a'', ''bad'']", OF c o(1) o(2)] r a o
  show ?thesis by (simp add: all_processed_def)
qed

section \<open>Updating the host document\<close>

lemma updateDocument_done:
  "processed doc ''updateDocument'' = Some True \<Longrightarrow> updateDocument X doc = doc"
  by (simp add: updateDocument_def)

lemma for_each_log:
  "for_each (\<lambda>item host. (item, host @ [item])) items host = (items, host @ items)"
  by (induction items arbitrary: host) auto

text \<open>
  C6. \<open>updateDocument\<close> twice is \<open>updateDocument\<close> once, and with the flag set it
  changes nothing. With the flag not set, the host document is the result of the items'
  \<open>updateDocument\<close> calls from the last item of the list to the first, and the flag is
  set. With items that append themselves to a log, the log is the list reversed.
\<close>

theorem updateDocument_reverse_order:
  "updateDocument X (updateDocument X doc) = updateDocument X doc \<and>
   (processed doc ''updateDocument'' = Some True \<longrightarrow> updateDocument X doc = doc) \<and>
   (processed doc ''updateDocument'' \<noteq> Some True \<longrightarrow>
      document (updateDocument X doc) =
        fold (\<lambda>item host. snd (math_updateDocument X item host)) (rev (math doc)) (document doc) \<and>
      length (math (updateDocument X doc)) = length (math doc) \<and>
      processed (updateDocument X doc) = (processed doc)(''updateDocument'' \<mapsto> True)) \<and>
   (processed ldoc ''updateDocument'' \<noteq> Some True \<and>
    math_updateDocument L = (\<lambda>item host. (item, host @ [item])) \<longrightarrow>
      document (updateDocument L ldoc) = document ldoc @ rev (math ldoc) \<and>
      math (updateDocument L ldoc) = math ldoc)"
proof (intro conjI impI)
  have "processed (updateDocument X doc) ''updateDocument'' = Some True"
    by (simp add: updateDocument_processed)
  then show "updateDocument X (updateDocument X doc) = updateDocument X doc"
    by (rule updateDocument_done)
  show "updateDocument X doc = doc" if "processed doc ''updateDocument'' = Some True"
    using that by (rule updateDocument_done)
next
  assume n: "processed doc ''updateDocument'' \<noteq> Some True"
  obtain items host where
    f: "for_each (math_updateDocument X) (rev (math doc)) (document doc) = (items, host)"
    by (cases "for_each (math_updateDocument X) (rev (math doc)) (document doc)") auto
  from for_each_snd [of "math_updateDocument X" "rev (math doc)" "document doc"] f
  have h: "host = fold (\<lambda>item host. snd (math_updateDocument X item host)) (rev (math doc)) (document doc)"
    by simp
  from for_each_length [of "math_updateDocument X" "rev (math doc)" "document doc"] f
  have l: "length items = length (math doc)" by simp
  from n f h show "document (updateDocument X doc) =
        fold (\<lambda>item host. snd (math_updateDocument X item host)) (rev (math doc)) (document doc)"
    by (simp add: updateDocument_def reversed_def)
  from n f l show "length (math (updateDocument X doc)) = length (math doc)"
    by (simp add: updateDocument_def reversed_def)
  from n show "processed (updateDocument X doc) = (processed doc)(''updateDocument'' \<mapsto> True)"
    by (simp add: updateDocument_processed)
next
  assume a: "processed ldoc ''updateDocument'' \<noteq> Some True \<and>
    math_updateDocument L = (\<lambda>item host. (item, host @ [item]))"
  then show "document (updateDocument L ldoc) = document ldoc @ rev (math ldoc)"
    by (simp add: updateDocument_def reversed_def for_each_log)
  from a show "math (updateDocument L ldoc) = math ldoc"
    by (simp add: updateDocument_def reversed_def for_each_log)
qed

theorem updateDocument_reverse_order_witness:
  "processed (ex_doc [''a'', ''b'', ''c'']) ''updateDocument'' \<noteq> Some True \<and>
   document (updateDocument ex_externals (ex_doc [''a'', ''b'', ''c''])) = [js ''c'', js ''b'', js ''a''] \<and>
   processed (updateDocument ex_externals (ex_doc [''a'', ''b'', ''c''])) ''updateDocument'' = Some True \<and>
   updateDocument ex_externals (updateDocument ex_externals (ex_doc [''a'', ''b'', ''c''])) =
     updateDocument ex_externals (ex_doc [''a'', ''b'', ''c'']) \<and>
   math_updateDocument ex_logging = (\<lambda>item host. (item, host @ [item])) \<and>
   document (updateDocument ex_logging (ex_log_doc [''a'', ''b'', ''c''])) =
     [ex_item ''c'', ex_item ''b'', ex_item ''a'']"
proof -
  let ?d = "ex_doc [''a'', ''b'', ''c'']"
  let ?l = "ex_log_doc [''a'', ''b'', ''c'']"
  have n: "processed ?d ''updateDocument'' \<noteq> Some True"
    "processed ?l ''updateDocument'' \<noteq> Some True"
    by (simp_all add: ex_doc_def ex_log_doc_def constructor_processed_def)
  have l: "math_updateDocument ex_logging = (\<lambda>item host. (item, host @ [item]))"
    by (simp add: ex_logging_def)
  have f: "fold (\<lambda>item host. snd (math_updateDocument ex_externals item host))
      (rev (math ?d)) (document ?d) = [js ''c'', js ''b'', js ''a'']"
    by (simp add: ex_doc_def ex_externals_def ex_item_def)
  have m: "document ?l @ rev (math ?l) = [ex_item ''c'', ex_item ''b'', ex_item ''a'']"
    by (simp add: ex_log_doc_def)
  note t1 = updateDocument_reverse_order [of ex_externals ?d ?l ex_logging]
  from t1 n(1) have 2:
    "document (updateDocument ex_externals ?d) =
       fold (\<lambda>item host. snd (math_updateDocument ex_externals item host))
         (rev (math ?d)) (document ?d)"
    "processed (updateDocument ex_externals ?d) = (processed ?d)(''updateDocument'' \<mapsto> True)"
    by blast+
  from 2(2) have "processed (updateDocument ex_externals ?d) ''updateDocument'' = Some True"
    by simp
  with updateDocument_reverse_order
    [of ex_externals "updateDocument ex_externals ?d" ?l ex_logging]
  have 1: "updateDocument ex_externals (updateDocument ex_externals ?d) =
       updateDocument ex_externals ?d"
    by blast
  from t1 n(2) l have 3:
    "document (updateDocument ex_logging ?l) = document ?l @ rev (math ?l)"
    by blast
  from 1 2 3 f m n l show ?thesis by simp
qed

section \<open>The atop layout of a fraction\<close>

lemma round53_tenth: "ddivide (1, 0) (5, 1) = (3602879701896397, - 55)"
  by code_simp

text \<open>
  C7, as amended. In \<open>getUVQ\<close> the initial offsets are \<open>num1\<close> and \<open>denom1\<close> in display
  style, \<open>num3\<close> and \<open>denom2\<close> otherwise, and the minimum separation is 7 times the
  rule thickness in display style and 3 times otherwise. When the gap at the initial
  offsets is below the minimum, the computed half of the difference is added to each
  offset and the separation returned is the minimum itself; otherwise the offsets and
  the gap are returned as they are. This holds in any arithmetic. In exact arithmetic
  the gap at the new offsets is the minimum.
\<close>

theorem getUVQ_atop:
  assumes "atop_offsets tex disp = (u0, v0)"
  shows
    "(let p = atop_min_gap ar tex disp; q0 = atop_gap ar nbox dbox u0 v0;
          h = divide_op ar (minus_op ar p q0) (literal ar 2)
      in (less_op ar q0 p \<longrightarrow>
            getUVQ ar tex nbox dbox disp = (plus_op ar u0 h, plus_op ar v0 h, p, nbox, dbox)) \<and>
         (\<not> less_op ar q0 p \<longrightarrow> getUVQ ar tex nbox dbox disp = (u0, v0, q0, nbox, dbox))) \<and>
     u0 = (if disp then num1 tex else num3 tex) \<and>
     v0 = (if disp then denom1 tex else denom2 tex) \<and>
     atop_min_gap ar tex disp =
       times_op ar (literal ar (if disp then 7 else 3)) (rule_thickness tex) \<and>
     (atop_gap real_arith rn rd ru rv < rp \<longrightarrow>
        atop_gap real_arith rn rd
          (ru + (rp - atop_gap real_arith rn rd ru rv) / 2)
          (rv + (rp - atop_gap real_arith rn rd ru rv) / 2) = rp)"
  using assms
  by (auto simp: getUVQ_def atop_offsets_def atop_min_gap_def atop_gap_def real_arith_def Let_def
      split: if_splits)

text \<open>
  C7, as stated, fails in the arithmetic of the code. With the offsets 0.5, the rule
  thickness 0.1 and a numerator depth and a denominator height of 1, the minimum is
  \<open>7 * 0.1 = 0.7000000000000001\<close> and the gap at the initial offsets is -1; the
  offsets returned are both 1.35, and the gap at them is \<open>0.7000000000000002\<close>, which
  is above the minimum and not equal to it.
\<close>

theorem getUVQ_double_gap:
  "dless (atop_gap double_arith (ex_double_box (1, 0) (1, 0)) (ex_double_box (1, 0) (0, 0))
            (1, - 1) (1, - 1))
         (atop_min_gap double_arith ex_double_tex True) \<and>
   atop_min_gap double_arith ex_double_tex True = (6305039478318695, - 53) \<and>
   fst (getUVQ double_arith ex_double_tex (ex_double_box (1, 0) (1, 0))
          (ex_double_box (1, 0) (0, 0)) True) = (3039929748475085, - 51) \<and>
   fst (snd (getUVQ double_arith ex_double_tex (ex_double_box (1, 0) (1, 0))
          (ex_double_box (1, 0) (0, 0)) True)) = (3039929748475085, - 51) \<and>
   fst (snd (snd (getUVQ double_arith ex_double_tex (ex_double_box (1, 0) (1, 0))
          (ex_double_box (1, 0) (0, 0)) True))) = (6305039478318695, - 53) \<and>
   atop_gap double_arith (ex_double_box (1, 0) (1, 0)) (ex_double_box (1, 0) (0, 0))
     (3039929748475085, - 51) (3039929748475085, - 51) = (788129934789837, - 50) \<and>
   dless (6305039478318695, - 53) (788129934789837, - 50)"
  by code_simp

theorem getUVQ_atop_witness:
  "atop_offsets ex_tex True = (1 / 2, 1 / 2) \<and>
   atop_gap real_arith (ex_box 1 1) (ex_box 1 0) (1 / 2) (1 / 2) < atop_min_gap real_arith ex_tex True \<and>
   getUVQ real_arith ex_tex (ex_box 1 1) (ex_box 1 0) True =
     (27 / 20, 27 / 20, 7 / 10, ex_box 1 1, ex_box 1 0) \<and>
   atop_gap real_arith (ex_box 1 1) (ex_box 1 0) (27 / 20) (27 / 20) = 7 / 10 \<and>
   atop_offsets ex_tex False = (1 / 4, 1 / 4) \<and>
   \<not> atop_gap real_arith (ex_box 1 0) (ex_box 0 1) (1 / 4) (1 / 4) < atop_min_gap real_arith ex_tex False \<and>
   getUVQ real_arith ex_tex (ex_box 1 0) (ex_box 0 1) False =
     (1 / 4, 1 / 4, 1 / 2, ex_box 1 0, ex_box 0 1)"
proof -
  have a: "atop_offsets ex_tex True = (1 / 2, 1 / 2)"
    by (simp add: atop_offsets_def ex_tex_def)
  have b: "atop_offsets ex_tex False = (1 / 4, 1 / 4)"
    by (simp add: atop_offsets_def ex_tex_def)
  have p: "atop_min_gap real_arith ex_tex True = 7 / 10"
    "atop_min_gap real_arith ex_tex False = 3 / 10"
    by (simp_all add: atop_min_gap_def ex_tex_def real_arith_def)
  have q: "atop_gap real_arith (ex_box 1 1) (ex_box 1 0) (1 / 2) (1 / 2) = - 1"
    "atop_gap real_arith (ex_box 1 0) (ex_box 0 1) (1 / 4) (1 / 4) = 1 / 2"
    by (simp_all add: atop_gap_def ex_box_def real_arith_def)
  have o: "less_op real_arith x y = (x < y)" "plus_op real_arith x y = x + y"
    "minus_op real_arith x y = x - y" "divide_op real_arith x y = x / y"
    "literal real_arith 2 = 2" for x y
    by (simp_all add: real_arith_def)
  from getUVQ_atop [OF a, of real_arith "ex_box 1 1" "ex_box 1 0" "ex_box 1 1" "ex_box 1 0"
      "1 / 2" "1 / 2" "7 / 10"]
  have 1: "getUVQ real_arith ex_tex (ex_box 1 1) (ex_box 1 0) True =
      (27 / 20, 27 / 20, 7 / 10, ex_box 1 1, ex_box 1 0) \<and>
    atop_gap real_arith (ex_box 1 1) (ex_box 1 0) (27 / 20) (27 / 20) = 7 / 10"
    by (simp add: p q o Let_def)
  from getUVQ_atop [OF b, of real_arith "ex_box 1 0" "ex_box 0 1"]
  have 2: "getUVQ real_arith ex_tex (ex_box 1 0) (ex_box 0 1) False =
      (1 / 4, 1 / 4, 1 / 2, ex_box 1 0, ex_box 0 1)"
    by (simp add: p q o Let_def)
  from a b 1 2 show ?thesis by (simp add: p q)
qed

section \<open>The quotes of a quoted text\<close>

text \<open>
  C8. Provided the value of \<open>lquote\<close> and of \<open>rquote\<close> is the plain double quote when
  the attribute is not set on the node: the constructor puts before the children the
  text wrapper of the left quote and after them the text wrapper of the right quote,
  where a quote is the attribute's value when it is set on the node, and otherwise the
  plain double quote for the variant \<open>monospace\<close> and U+201C (left) or U+201D (right)
  for any other variant.
\<close>

theorem CommonMs_quotes:
  assumes "\<not> attributes_isSet this (js ''lquote'') \<Longrightarrow> attributes_getList this (js ''lquote'') = [0x22]"
    and "\<not> attributes_isSet this (js ''rquote'') \<Longrightarrow> attributes_getList this (js ''rquote'') = [0x22]"
  shows
    "childNodes (CommonMs createText this) =
       [createText (if attributes_isSet this (js ''lquote'') then attributes_getList this (js ''lquote'')
                    else if variant this = js ''monospace'' then [0x22] else [0x201C])] @
       childNodes this @
       [createText (if attributes_isSet this (js ''rquote'') then attributes_getList this (js ''rquote'')
                    else if variant this = js ''monospace'' then [0x22] else [0x201D])] \<and>
     variant (CommonMs createText this) = variant this"
  using assms by (auto simp: CommonMs_def Let_def)

theorem CommonMs_quotes_witness:
  "childNodes (CommonMs (\<lambda>t. t) (ex_ms (js ''normal''))) = [[0xAB], js ''abc'', [0x201D]] \<and>
   childNodes (CommonMs (\<lambda>t. t) (ex_ms (js ''monospace''))) = [[0xAB], js ''abc'', [0x22]]"
  using CommonMs_quotes [of "ex_ms (js ''normal'')" "\<lambda>t. t"]
    CommonMs_quotes [of "ex_ms (js ''monospace'')" "\<lambda>t. t"]
  by (simp add: ex_ms_def js_def)

end
